theory Spec2Isabelle
  imports
    Complex_Main
    "HOL-Library.Word"
    "HOL-Library.Signed_Division"
    "HOL-Library.Multiset"
    "HOL-Library.AList"
begin

section \<open>Values of the Go program\<close>

text \<open>
  The development follows two files of veneur: \<^verbatim>\<open>worker.go\<close> (the per-shard
  aggregation state, \<^verbatim>\<open>Worker.ProcessMetric\<close> and \<^verbatim>\<open>Worker.Flush\<close>) and the
  flusher (\<^verbatim>\<open>Server.Flush\<close> and \<^verbatim>\<open>Server.flushPart\<close>).

  Machine types. \<^verbatim>\<open>uint32\<close> and \<^verbatim>\<open>int64\<close> are words, so \<^verbatim>\<open>w.metrics++\<close> wraps
  as Go's does. A \<^verbatim>\<open>float64\<close> is carried as its IEEE-754 bit pattern: the code under
  study only passes floats along, it never computes with them. Go's \<^verbatim>\<open>int\<close> (lengths,
  indices, the chunk arithmetic) is \<open>int\<close>: with at least one record and a limit of at
  least one, every value the chunk arithmetic forms lies between 0 and the number of
  records (lemmas \<open>plan_facts\<close> and \<open>chunk_arith_in_range\<close> below), so the machine width
  plays no role there.
\<close>

type_synonym uint32 = "32 word"
type_synonym int64 = "64 word"
type_synonym float64 = "64 word"
type_synonym float32 = "32 word"
type_synonym Duration = "64 word"

definition f64_one :: float64 where
  \<comment> \<open>the literal \<^verbatim>\<open>1.0\<close>\<close>
  "f64_one = 0x3FF0000000000000"

definition f64_tenth :: float64 where
  \<comment> \<open>the literal \<^verbatim>\<open>0.1\<close>, rounded to nearest\<close>
  "f64_tenth = 0x3FB999999999999A"

datatype panic =
    DivideByZero        \<comment> \<open>integer divide by zero\<close>
  | SliceBounds         \<comment> \<open>slice bounds out of range\<close>
  | TypeAssertion       \<comment> \<open>interface conversion: a failed \<^verbatim>\<open>x.(T)\<close>\<close>

subsection \<open>Formatting with \<^verbatim>\<open>%d\<close>\<close>

definition digit_char :: "nat \<Rightarrow> char" where
  "digit_char d = ''0123456789'' ! d"

fun fmt_nat :: "nat \<Rightarrow> string" where
  "fmt_nat n = (if n < 10 then [digit_char n] else fmt_nat (n div 10) @ [digit_char (n mod 10)])"

declare fmt_nat.simps [simp del]

definition fmt_d :: "int \<Rightarrow> string" where
  \<comment> \<open>\<^verbatim>\<open>fmt.Sprintf("%d", k)\<close>\<close>
  "fmt_d k = (if k < 0 then CHR ''-'' # fmt_nat (nat (- k)) else fmt_nat (nat k))"

subsection \<open>The side channels: logger, statsd client, mutex, HTTP client\<close>

text \<open>
  Every call on the logger, on the statsd client, on the worker's mutex and on the HTTP
  client is recorded, in program order, as an event of the goroutine that makes it.
  A clock reading (\<^verbatim>\<open>time.Now()\<close>) is not a value of the model: a timing event keeps its
  name, tags and rate only. \<^verbatim>\<open>float64(n)\<close> of an integer \<open>n\<close> is recorded as \<open>n\<close>.
\<close>

datatype level = Debug | Info | Error

datatype field =
    FString string
  | FInt int
  | FError string                       \<comment> \<open>an \<^verbatim>\<open>error\<close>, by its message\<close>
  | FHeader "(string \<times> string) list"     \<comment> \<open>an \<^verbatim>\<open>http.Header\<close>\<close>

datatype event =
    MutexLock
  | MutexUnlock
  | Log level "(string \<times> field) list" string
      \<comment> \<open>\<^verbatim>\<open>logger.WithField(s)(...).Level(msg)\<close>\<close>
  | StatsCount string int64 "string list" float64
      \<comment> \<open>\<^verbatim>\<open>statsd.Count(name, value, tags, rate)\<close>\<close>
  | StatsGauge string int "string list" float64
  | StatsHistogram string int "string list" float64
  | StatsTime string "string list" float64
      \<comment> \<open>\<^verbatim>\<open>statsd.TimeInMilliseconds(name, <clock>, tags, rate)\<close>\<close>
  | HttpDo string "(string \<times> string) list" nat
      \<comment> \<open>\<^verbatim>\<open>http.DefaultClient.Do(req)\<close>: a POST to the URL, with the headers set
          and a body of the given number of records\<close>

subsection \<open>Slices\<close>

text \<open>
  \<^verbatim>\<open>s[lo:]\<close> and \<^verbatim>\<open>s[:hi]\<close> on a slice whose capacity equals its length, which is the
  case for \<^verbatim>\<open>finalMetrics\<close> (allocated with capacity \<^verbatim>\<open>totalCount\<close> and filled with
  exactly \<^verbatim>\<open>totalCount\<close> records) and for every \<^verbatim>\<open>finalMetrics[lo:]\<close>. An index out of
  range panics.
\<close>

definition slice_from :: "'a list \<Rightarrow> int \<Rightarrow> panic + 'a list" where
  "slice_from s lo =
     (if lo < 0 \<or> int (length s) < lo then Inl SliceBounds else Inr (drop (nat lo) s))"

definition slice_to :: "'a list \<Rightarrow> int \<Rightarrow> panic + 'a list" where
  "slice_to s hi =
     (if hi < 0 \<or> int (length s) < hi then Inl SliceBounds else Inr (take (nat hi) s))"

definition go_quo :: "int \<Rightarrow> int \<Rightarrow> panic + int" where
  \<comment> \<open>Go's \<^verbatim>\<open>a / b\<close> on integers: truncated towards zero, a panic when \<open>b = 0\<close>\<close>
  "go_quo a b = (if b = 0 then Inl DivideByZero else Inr (a sdiv b))"

section \<open>The worker (\<^verbatim>\<open>worker.go\<close>)\<close>

subsection \<open>Declarations the worker uses\<close>

text \<open>
  Modelled from the spec: the declarations of \<^verbatim>\<open>Metric\<close>, \<^verbatim>\<open>DDMetric\<close> and of the four
  samplers (\<^verbatim>\<open>Counter\<close>, \<^verbatim>\<open>Gauge\<close>, \<^verbatim>\<open>Histo\<close>, \<^verbatim>\<open>Set\<close>) are not part of the two
  files. The fields of \<^verbatim>\<open>Metric\<close> are the ones \<^verbatim>\<open>ProcessMetric\<close> reads; its \<^verbatim>\<open>Value\<close> has
  an interface type (the code applies type assertions to it), so it carries a dynamic
  type: \<^verbatim>\<open>float64\<close>, \<^verbatim>\<open>string\<close>, or anything else (\<^verbatim>\<open>nil\<close> included). Of a \<^verbatim>\<open>DDMetric\<close>
  only \<^verbatim>\<open>Hostname\<close> is touched; its other fields are kept together as \<open>Fields\<close>.
  The width of the float \<^verbatim>\<open>SampleRate\<close> does not show in the two files; it is carried as
  a bit pattern, and nothing depends on it.
  The samplers are parameters: their constructors, \<^verbatim>\<open>Sample\<close> and \<^verbatim>\<open>Flush\<close> methods are
  the components of a \<open>samplers\<close> record, over arbitrary state types.
\<close>

datatype dynamic = VFloat64 float64 | VString string | VOther

record Metric =
  Name :: string
  Digest :: uint32
  Type :: string
  Value :: dynamic
  SampleRate :: float32
  Tags :: "string list"

record 'p DDMetric =
  Fields :: 'p
  Hostname :: string

record ('c, 'g, 'h, 's, 'p) samplers =
  NewCounter :: "string \<Rightarrow> string list \<Rightarrow> 'c"
  Counter_Sample :: "'c \<Rightarrow> float64 \<Rightarrow> float32 \<Rightarrow> 'c"
  Counter_Flush :: "'c \<Rightarrow> Duration \<Rightarrow> 'p DDMetric list"
  NewGauge :: "string \<Rightarrow> string list \<Rightarrow> 'g"
  Gauge_Sample :: "'g \<Rightarrow> float64 \<Rightarrow> float32 \<Rightarrow> 'g"
  Gauge_Flush :: "'g \<Rightarrow> 'p DDMetric list"
  NewHist :: "string \<Rightarrow> string list \<Rightarrow> float64 list \<Rightarrow> bool \<Rightarrow> 'h"
  Histo_Sample :: "'h \<Rightarrow> float64 \<Rightarrow> float32 \<Rightarrow> 'h"
  Histo_Flush :: "'h \<Rightarrow> Duration \<Rightarrow> 'p DDMetric list"
  NewSet :: "string \<Rightarrow> string list \<Rightarrow> 64 word \<Rightarrow> float64 \<Rightarrow> 's"
  Set_Sample :: "'s \<Rightarrow> string \<Rightarrow> float32 \<Rightarrow> 's"
  Set_Flush :: "'s \<Rightarrow> 'p DDMetric list"

subsection \<open>The \<^verbatim>\<open>Worker\<close> struct\<close>

text \<open>
  A Go \<^verbatim>\<open>map[uint32]*T\<close> is an association list with distinct keys: \<^verbatim>\<open>len\<close> is its
  length and \<^verbatim>\<open>range\<close> visits it in list order (one of the orders Go may choose).
  Each sampler is reachable through its map entry alone, so the pointer is the value.
  The channels, the mutex and the two clients are not fields of the model: what is done
  with the last three shows in the events.
\<close>

type_synonym 'a gomap = "(uint32 \<times> 'a) list"

record ('c, 'g, 'h, 's) Worker =
  worker_id :: int
  metrics :: int64
  counters :: "'c gomap"
  gauges :: "'g gomap"
  histograms :: "'h gomap"
  sets :: "'s gomap"
  timers :: "'h gomap"
  histogramPercentiles :: "float64 list"
  histogramCounter :: bool
  bloomSetSize :: "64 word"
  bloomSetAccuracy :: float64

definition NewWorker ::
  "int \<Rightarrow> float64 list \<Rightarrow> bool \<Rightarrow> 64 word \<Rightarrow> float64 \<Rightarrow> ('c, 'g, 'h, 's) Worker" where
  "NewWorker i percentiles hc setSize setAccuracy =
     \<lparr>worker_id = i, metrics = 0, counters = [], gauges = [], histograms = [], sets = [],
      timers = [], histogramPercentiles = percentiles, histogramCounter = hc,
      bloomSetSize = setSize, bloomSetAccuracy = setAccuracy\<rparr>"

definition present :: "'a gomap \<Rightarrow> uint32 \<Rightarrow> bool" where
  \<comment> \<open>\<^verbatim>\<open>_, present := m[k]\<close>\<close>
  "present m k = (map_of m k \<noteq> None)"

definition store :: "'a gomap \<Rightarrow> uint32 \<Rightarrow> 'a \<Rightarrow> 'a gomap" where
  \<comment> \<open>\<^verbatim>\<open>m[k] = v\<close>\<close>
  "store m k v = AList.update k v m"

definition sample_at :: "'a gomap \<Rightarrow> uint32 \<Rightarrow> ('a \<Rightarrow> 'a) \<Rightarrow> 'a gomap" where
  \<comment> \<open>\<^verbatim>\<open>m[k].Sample(...)\<close>: the sampler behind the entry is updated in place\<close>
  "sample_at m k f = AList.map_entry k f m"

text \<open>
  An association list stands for a Go map when its keys are distinct; a worker is well
  formed when its five maps are. \<^verbatim>\<open>NewWorker\<close>, \<^verbatim>\<open>ProcessMetric\<close> and \<^verbatim>\<open>Flush\<close> give
  well-formed workers (lemmas \<open>well_formed_NewWorker\<close>, \<open>well_formed_ProcessMetric\<close>
  and \<open>well_formed_Worker_Flush\<close>).
\<close>

definition is_map :: "'a gomap \<Rightarrow> bool" where
  "is_map m = distinct (map fst m)"

definition well_formed :: "('c, 'g, 'h, 's) Worker \<Rightarrow> bool" where
  "well_formed w =
     (is_map (counters w) \<and> is_map (gauges w) \<and> is_map (histograms w) \<and> is_map (sets w) \<and>
      is_map (timers w))"

subsection \<open>\<^verbatim>\<open>Worker.ProcessMetric\<close>\<close>

text \<open>
  The result is the worker after the call, the events of the call and, when the call
  panics, the panic. The mutex is taken first and released by the deferred \<^verbatim>\<open>Unlock\<close>,
  which also runs when a type assertion panics. In \<^verbatim>\<open>m[k].Sample(v.(float64), r)\<close> the
  assertion is evaluated after the statements before it: the counter of observations
  is already incremented and a missing sampler is already created and stored.
\<close>

type_synonym ('c, 'g, 'h, 's) outcome = "('c, 'g, 'h, 's) Worker \<times> event list \<times> panic option"

definition new_sampler_log :: "bool \<Rightarrow> Metric \<Rightarrow> string \<Rightarrow> event list" where
  "new_sampler_log p m msg = (if \<not> p then [Log Debug [(''name'', FString (Name m))] msg] else [])"

definition process_counter ::
  "('c, 'g, 'h, 's, 'p) samplers \<Rightarrow> ('c, 'g, 'h, 's) Worker \<Rightarrow> Metric \<Rightarrow> ('c, 'g, 'h, 's) outcome" where
  "process_counter sm w m =
     (let p = present (counters w) (Digest m);
          w1 = (if \<not> p then w\<lparr>counters := store (counters w) (Digest m) (NewCounter sm (Name m) (Tags m))\<rparr>
                else w);
          ev = MutexLock # new_sampler_log p m ''New counter'' @ [MutexUnlock]
      in case Value m of
           VFloat64 v \<Rightarrow>
             (w1\<lparr>counters := sample_at (counters w1) (Digest m) (\<lambda>c. Counter_Sample sm c v (SampleRate m))\<rparr>,
              ev, None)
         | _ \<Rightarrow> (w1, ev, Some TypeAssertion))"

definition process_gauge ::
  "('c, 'g, 'h, 's, 'p) samplers \<Rightarrow> ('c, 'g, 'h, 's) Worker \<Rightarrow> Metric \<Rightarrow> ('c, 'g, 'h, 's) outcome" where
  "process_gauge sm w m =
     (let p = present (gauges w) (Digest m);
          w1 = (if \<not> p then w\<lparr>gauges := store (gauges w) (Digest m) (NewGauge sm (Name m) (Tags m))\<rparr>
                else w);
          ev = MutexLock # new_sampler_log p m ''New gauge'' @ [MutexUnlock]
      in case Value m of
           VFloat64 v \<Rightarrow>
             (w1\<lparr>gauges := sample_at (gauges w1) (Digest m) (\<lambda>g. Gauge_Sample sm g v (SampleRate m))\<rparr>,
              ev, None)
         | _ \<Rightarrow> (w1, ev, Some TypeAssertion))"

definition process_histogram ::
  "('c, 'g, 'h, 's, 'p) samplers \<Rightarrow> ('c, 'g, 'h, 's) Worker \<Rightarrow> Metric \<Rightarrow> ('c, 'g, 'h, 's) outcome" where
  "process_histogram sm w m =
     (let p = present (histograms w) (Digest m);
          w1 = (if \<not> p
                then w\<lparr>histograms := store (histograms w) (Digest m)
                         (NewHist sm (Name m) (Tags m) (histogramPercentiles w) (histogramCounter w))\<rparr>
                else w);
          ev = MutexLock # new_sampler_log p m ''New histogram'' @ [MutexUnlock]
      in case Value m of
           VFloat64 v \<Rightarrow>
             (w1\<lparr>histograms := sample_at (histograms w1) (Digest m) (\<lambda>h. Histo_Sample sm h v (SampleRate m))\<rparr>,
              ev, None)
         | _ \<Rightarrow> (w1, ev, Some TypeAssertion))"

definition process_set ::
  "('c, 'g, 'h, 's, 'p) samplers \<Rightarrow> ('c, 'g, 'h, 's) Worker \<Rightarrow> Metric \<Rightarrow> ('c, 'g, 'h, 's) outcome" where
  "process_set sm w m =
     (let p = present (sets w) (Digest m);
          w1 = (if \<not> p
                then w\<lparr>sets := store (sets w) (Digest m)
                         (NewSet sm (Name m) (Tags m) (bloomSetSize w) (bloomSetAccuracy w))\<rparr>
                else w);
          ev = MutexLock # new_sampler_log p m ''New set'' @ [MutexUnlock]
      in case Value m of
           VString v \<Rightarrow>
             (w1\<lparr>sets := sample_at (sets w1) (Digest m) (\<lambda>s. Set_Sample sm s v (SampleRate m))\<rparr>,
              ev, None)
         | _ \<Rightarrow> (w1, ev, Some TypeAssertion))"

definition process_timer ::
  "('c, 'g, 'h, 's, 'p) samplers \<Rightarrow> ('c, 'g, 'h, 's) Worker \<Rightarrow> Metric \<Rightarrow> ('c, 'g, 'h, 's) outcome" where
  "process_timer sm w m =
     (let p = present (timers w) (Digest m);
          w1 = (if \<not> p
                then w\<lparr>timers := store (timers w) (Digest m)
                         (NewHist sm (Name m) (Tags m) (histogramPercentiles w) (histogramCounter w))\<rparr>
                else w);
          ev = MutexLock # new_sampler_log p m ''New timer'' @ [MutexUnlock]
      in case Value m of
           VFloat64 v \<Rightarrow>
             (w1\<lparr>timers := sample_at (timers w1) (Digest m) (\<lambda>h. Histo_Sample sm h v (SampleRate m))\<rparr>,
              ev, None)
         | _ \<Rightarrow> (w1, ev, Some TypeAssertion))"

definition ProcessMetric ::
  "('c, 'g, 'h, 's, 'p) samplers \<Rightarrow> ('c, 'g, 'h, 's) Worker \<Rightarrow> Metric \<Rightarrow> ('c, 'g, 'h, 's) outcome" where
  "ProcessMetric sm w0 m =
     (let w = w0\<lparr>metrics := metrics w0 + 1\<rparr>
      in if Type m = ''counter'' then process_counter sm w m
         else if Type m = ''gauge'' then process_gauge sm w m
         else if Type m = ''histogram'' then process_histogram sm w m
         else if Type m = ''set'' then process_set sm w m
         else if Type m = ''timer'' then process_timer sm w m
         else (w, [MutexLock, Log Error [(''type'', FString (Type m))] ''Unknown metric type'',
                   MutexUnlock], None))"

subsection \<open>\<^verbatim>\<open>Worker.Flush\<close>\<close>

text \<open>
  The result is the worker after the call, the returned \<^verbatim>\<open>postMetrics\<close> and the events
  in program order. The five locals hold the maps taken under the mutex; the worker
  gets fresh empty maps. Preallocating \<^verbatim>\<open>postMetrics\<close> changes no value.
\<close>

definition int64_of_len :: "'a list \<Rightarrow> int64" where
  \<comment> \<open>\<^verbatim>\<open>int64(len(x))\<close>\<close>
  "int64_of_len xs = word_of_int (int (length xs))"

definition Worker_Flush ::
  "('c, 'g, 'h, 's, 'p) samplers \<Rightarrow> ('c, 'g, 'h, 's) Worker \<Rightarrow> Duration \<Rightarrow>
     ('c, 'g, 'h, 's) Worker \<times> 'p DDMetric list \<times> event list" where
  "Worker_Flush sm w interval =
     (let counters_l = counters w;
          gauges_l = gauges w;
          histograms_l = histograms w;
          sets_l = sets w;
          timers_l = timers w;
          w' = w\<lparr>counters := [], gauges := [], histograms := [], sets := [], timers := [],
                 metrics := 0\<rparr>;
          ev =
            [MutexLock,
             StatsCount ''worker.metrics_processed_total'' (metrics w)
               [''worker:'' @ fmt_d (worker_id w)] f64_one,
             MutexUnlock,
             StatsTime ''flush.worker_duration_ns'' [] f64_one,
             StatsCount ''worker.metrics_flushed_total'' (int64_of_len counters_l)
               [''metric_type:counter''] f64_one,
             StatsCount ''worker.metrics_flushed_total'' (int64_of_len gauges_l)
               [''metric_type:gauge''] f64_one,
             StatsCount ''worker.metrics_flushed_total'' (int64_of_len histograms_l)
               [''metric_type:histogram''] f64_one,
             StatsCount ''worker.metrics_flushed_total'' (int64_of_len sets_l)
               [''metric_type:set''] f64_one,
             StatsCount ''worker.metrics_flushed_total'' (int64_of_len timers_l)
               [''metric_type:timer''] f64_one];
          postMetrics =
            concat (map (\<lambda>(k, v). Counter_Flush sm v interval) counters_l) @
            concat (map (\<lambda>(k, v). Gauge_Flush sm v) gauges_l) @
            concat (map (\<lambda>(k, v). Histo_Flush sm v interval) histograms_l) @
            concat (map (\<lambda>(k, v). Set_Flush sm v) sets_l) @
            concat (map (\<lambda>(k, v). Histo_Flush sm v interval) timers_l)
      in (w', postMetrics, ev))"

section \<open>The flusher\<close>

subsection \<open>\<^verbatim>\<open>Server.flushPart\<close>\<close>

text \<open>
  What the world answers to one call of \<^verbatim>\<open>flushPart\<close> is a parameter: the error of the
  JSON encoder (if any), the length of the compressed body, the error of
  \<^verbatim>\<open>http.NewRequest\<close> (if any), the result of \<^verbatim>\<open>http.DefaultClient.Do\<close> (an error or a
  response), and the result of \<^verbatim>\<open>ioutil.ReadAll\<close> on the response body (the bytes read,
  and an error if any). The call returns nothing; what it does is its events.
  The wait group is not modelled.
\<close>

record Response =
  Status :: string
  StatusCode :: int
  Header :: "(string \<times> string) list"

record part_io =
  Encode_err :: "string option"
  Body_len :: int
  NewRequest_err :: "string option"
  Do_result :: "string + Response"
  ReadAll_result :: "string \<times> string option"

text \<open>
  Modelled from the spec: the declaration of \<^verbatim>\<open>Server\<close> is not part of the two files;
  these are the fields the flusher reads. \<^verbatim>\<open>Workers\<close> holds pointers (\<^verbatim>\<open>NewWorker\<close>
  returns one), so a worker flushed through the loop variable is the server's worker.
\<close>

record ('c, 'g, 'h, 's) Server =
  Workers :: "('c, 'g, 'h, 's) Worker list"
  Server_Hostname :: string
  DDHostname :: string
  DDAPIKey :: string

definition StatusAccepted :: int where
  "StatusAccepted = 202"

definition series_url :: "('c, 'g, 'h, 's) Server \<Rightarrow> string" where
  \<comment> \<open>\<^verbatim>\<open>fmt.Sprintf("%s/api/v1/series?api_key=%s", s.DDHostname, s.DDAPIKey)\<close>\<close>
  "series_url s = DDHostname s @ ''/api/v1/series?api_key='' @ DDAPIKey s"

definition request_headers :: "(string \<times> string) list" where
  "request_headers = [(''Content-Type'', ''application/json''), (''Content-Encoding'', ''deflate'')]"

definition resultFields :: "Response \<Rightarrow> int \<Rightarrow> string \<Rightarrow> 'a list \<Rightarrow> (string \<times> field) list" where
  "resultFields resp bodyLength body metricSlice =
     [(''status'', FString (Status resp)),
      (''request_headers'', FHeader request_headers),
      (''response_headers'', FHeader (Header resp)),
      (''request_length'', FInt bodyLength),
      (''response'', FString body),
      (''total_metrics'', FInt (int (length metricSlice)))]"

definition flushPart ::
  "('c, 'g, 'h, 's) Server \<Rightarrow> 'p DDMetric list \<Rightarrow> part_io \<Rightarrow> event list" where
  "flushPart s metricSlice io =
     (case Encode_err io of
        Some err \<Rightarrow>
          [StatsCount ''flush.error_total'' (int64_of_len metricSlice) [''cause:json''] f64_one,
           Log Error [(''error'', FError err)] ''Error rendering JSON request body'']
      | None \<Rightarrow>
          [StatsTime ''flush.part_duration_ns'' [''part:marshal''] f64_one,
           StatsHistogram ''flush.content_length_bytes'' (Body_len io) [] f64_one] @
          (case NewRequest_err io of
             Some err \<Rightarrow>
               [StatsCount ''flush.error_total'' (int64_of_len metricSlice) [''cause:construct''] f64_one,
                Log Error [(''error'', FError err)] ''Error constructing POST request'']
           | None \<Rightarrow>
               HttpDo (series_url s) request_headers (length metricSlice) #
               (case Do_result io of
                  Inl err \<Rightarrow>
                    [StatsCount ''flush.error_total'' (int64_of_len metricSlice) [''cause:io''] f64_one,
                     Log Error [(''error'', FError err)] ''Error writing POST request'']
                | Inr resp \<Rightarrow>
                    StatsTime ''flush.part_duration_ns'' [''part:post''] f64_one #
                    (case snd (ReadAll_result io) of
                       Some err \<Rightarrow> [Log Error [(''error'', FError err)] ''Error reading response body'']
                     | None \<Rightarrow> []) @
                    (if StatusCode resp \<noteq> StatusAccepted
                     then [StatsCount ''flush.error_total'' (int64_of_len metricSlice)
                             [''cause:'' @ fmt_d (StatusCode resp)] f64_one,
                           Log Error (resultFields resp (Body_len io) (fst (ReadAll_result io)) metricSlice)
                             ''Error POSTing'']
                     else [Log Debug (resultFields resp (Body_len io) (fst (ReadAll_result io)) metricSlice)
                             ''POSTing JSON'']))))"

subsection \<open>\<^verbatim>\<open>Server.Flush\<close>\<close>

text \<open>The first loop: every worker is flushed, in order, after a debug line.\<close>

fun flush_workers ::
  "('c, 'g, 'h, 's, 'p) samplers \<Rightarrow> Duration \<Rightarrow> int \<Rightarrow> ('c, 'g, 'h, 's) Worker list \<Rightarrow>
     ('c, 'g, 'h, 's) Worker list \<times> 'p DDMetric list list \<times> event list" where
  "flush_workers sm interval i [] = ([], [], [])"
| "flush_workers sm interval i (w # ws) =
     (case Worker_Flush sm w interval of
        (w', tmp, ev) \<Rightarrow>
          (case flush_workers sm interval (i + 1) ws of
             (ws', outs, evs) \<Rightarrow>
               (w' # ws', tmp # outs, Log Debug [(''worker'', FInt i)] ''Flushing'' # ev @ evs)))"

definition flush_outputs ::
  "('c, 'g, 'h, 's, 'p) samplers \<Rightarrow> ('c, 'g, 'h, 's) Server \<Rightarrow> Duration \<Rightarrow> 'p DDMetric list list" where
  \<comment> \<open>the slices \<^verbatim>\<open>tmp\<close> the workers return, in order\<close>
  "flush_outputs sm s interval = fst (snd (flush_workers sm interval 0 (Workers s)))"

definition totalCount ::
  "('c, 'g, 'h, 's, 'p) samplers \<Rightarrow> ('c, 'g, 'h, 's) Server \<Rightarrow> Duration \<Rightarrow> int" where
  \<comment> \<open>\<^verbatim>\<open>totalCount += len(tmp)\<close> over the loop\<close>
  "totalCount sm s interval = sum_list (map (\<lambda>tmp. int (length tmp)) (flush_outputs sm s interval))"

definition finalMetrics ::
  "('c, 'g, 'h, 's, 'p) samplers \<Rightarrow> ('c, 'g, 'h, 's) Server \<Rightarrow> Duration \<Rightarrow> 'p DDMetric list" where
  \<comment> \<open>\<^verbatim>\<open>postMetrics\<close> starts as \<^verbatim>\<open>len(s.Workers)\<close> nil slices and the workers' slices are
      appended to it; \<^verbatim>\<open>finalMetrics\<close> is their concatenation, with the hostname set\<close>
  "finalMetrics sm s interval =
     (let postMetrics = replicate (length (Workers s)) [] @ flush_outputs sm s interval
      in map (\<lambda>m. m\<lparr>Hostname := Server_Hostname s\<rparr>) (concat postMetrics))"

definition chunk_plan :: "int \<Rightarrow> int \<Rightarrow> panic + int \<times> int" where
  \<comment> \<open>\<^verbatim>\<open>workers := ((totalCount - 1) / metricLimit) + 1\<close> and
      \<^verbatim>\<open>chunkSize := ((totalCount - 1) / workers) + 1\<close>\<close>
  "chunk_plan tc metricLimit =
     (case go_quo (tc - 1) metricLimit of
        Inl p \<Rightarrow> Inl p
      | Inr q \<Rightarrow>
          (let workers = q + 1
           in case go_quo (tc - 1) workers of
                Inl p \<Rightarrow> Inl p
              | Inr q' \<Rightarrow> Inr (workers, q' + 1)))"

text \<open>
  The loop \<^verbatim>\<open>for i := 0; i < workers; i++\<close>. It returns the chunks handed to
  \<^verbatim>\<open>go s.flushPart\<close>, in order, and the panic that stopped it, if any.
\<close>

function chunk_loop :: "'a list \<Rightarrow> int \<Rightarrow> int \<Rightarrow> int \<Rightarrow> 'a list list \<times> panic option" where
  "chunk_loop fm workers chunkSize i =
     (if i < workers then
        (case slice_from fm (i * chunkSize) of
           Inl p \<Rightarrow> ([], Some p)
         | Inr chunk \<Rightarrow>
             (case (if i < workers - 1 then slice_to chunk chunkSize else Inr chunk) of
                Inl p \<Rightarrow> ([], Some p)
              | Inr chunk' \<Rightarrow>
                  (case chunk_loop fm workers chunkSize (i + 1) of
                     (rest, p) \<Rightarrow> (chunk' # rest, p))))
      else ([], None))"
  by pat_completeness auto
termination
  by (relation "measure (\<lambda>(fm, workers, chunkSize, i). nat (workers - i))") auto

declare chunk_loop.simps [simp del]

record ('c, 'g, 'h, 's, 'p) cycle =
  server_after :: "('c, 'g, 'h, 's) Server"
  before :: "event list"
    \<comment> \<open>the events of the flushing goroutine up to the loop that starts the submissions\<close>
  parts :: "('p DDMetric list \<times> event list) list"
    \<comment> \<open>one entry for each \<^verbatim>\<open>go s.flushPart(chunk, &wg)\<close>, in the order they are started:
        the chunk and the events of that goroutine\<close>
  after :: "event list"
    \<comment> \<open>the events of the flushing goroutine after \<^verbatim>\<open>wg.Wait()\<close>\<close>
  panicked :: "panic option"

definition Server_Flush ::
  "('c, 'g, 'h, 's, 'p) samplers \<Rightarrow> ('c, 'g, 'h, 's) Server \<Rightarrow> Duration \<Rightarrow> int \<Rightarrow>
     (nat \<Rightarrow> part_io) \<Rightarrow> ('c, 'g, 'h, 's, 'p) cycle" where
  "Server_Flush sm s interval metricLimit io =
     (let s' = s\<lparr>Workers := fst (flush_workers sm interval 0 (Workers s))\<rparr>;
          tc = totalCount sm s interval;
          fm = finalMetrics sm s interval;
          ev0 = snd (snd (flush_workers sm interval 0 (Workers s))) @
                [StatsGauge ''flush.post_metrics_total'' tc [] f64_one]
      in if tc = 0 then
           \<lparr>server_after = s', before = ev0 @ [Log Info [] ''Nothing to flush, skipping.''],
            parts = [], after = [], panicked = None\<rparr>
         else
           (case chunk_plan tc metricLimit of
              Inl p \<Rightarrow> \<lparr>server_after = s', before = ev0, parts = [], after = [], panicked = Some p\<rparr>
            | Inr (workers, chunkSize) \<Rightarrow>
                (let ev1 = ev0 @
                       [Log Debug [(''workers'', FInt workers)] ''Worker count chosen'',
                        Log Debug [(''chunkSize'', FInt chunkSize)] ''Chunk size chosen''];
                     (chunks, p) = chunk_loop fm workers chunkSize 0;
                     ps = map (\<lambda>(i, chunk). (chunk, flushPart s chunk (io i))) (enumerate 0 chunks)
                 in case p of
                      Some e \<Rightarrow>
                        \<lparr>server_after = s', before = ev1, parts = ps, after = [], panicked = Some e\<rparr>
                    | None \<Rightarrow>
                        \<lparr>server_after = s', before = ev1, parts = ps,
                         after =
                           [StatsTime ''flush.total_duration_ns'' [] f64_one,
                            StatsCount ''flush.error_total'' 0 [] f64_tenth,
                            Log Info [(''metrics'', FInt tc)] ''Completed flush to Datadog''],
                         panicked = None\<rparr>)))"

section \<open>Concrete instances\<close>

text \<open>
  A family of samplers that only counts: the state of a sampler is its name and the
  number of samples it has taken, and flushing it gives one record. \<open>shard n\<close> is a
  worker that holds \<open>n\<close> counters, \<open>fleet n\<close> a server with that one worker, and
  \<open>accepting\<close> a backend that answers every submission with 202.
\<close>

type_synonym tally_state = "string \<times> nat"

definition tally ::
  "(tally_state, tally_state, tally_state, tally_state, tally_state) samplers" where
  "tally =
     \<lparr>NewCounter = (\<lambda>name tags. (name, 0)),
      Counter_Sample = (\<lambda>st v r. (fst st, Suc (snd st))),
      Counter_Flush = (\<lambda>st interval. [\<lparr>Fields = st, Hostname = []\<rparr>]),
      NewGauge = (\<lambda>name tags. (name, 0)),
      Gauge_Sample = (\<lambda>st v r. (fst st, Suc (snd st))),
      Gauge_Flush = (\<lambda>st. [\<lparr>Fields = st, Hostname = []\<rparr>]),
      NewHist = (\<lambda>name tags percentiles hc. (name, 0)),
      Histo_Sample = (\<lambda>st v r. (fst st, Suc (snd st))),
      Histo_Flush = (\<lambda>st interval. [\<lparr>Fields = st, Hostname = []\<rparr>]),
      NewSet = (\<lambda>name tags setSize setAccuracy. (name, 0)),
      Set_Sample = (\<lambda>st v r. (fst st, Suc (snd st))),
      Set_Flush = (\<lambda>st. [\<lparr>Fields = st, Hostname = []\<rparr>])\<rparr>"

definition shard :: "nat \<Rightarrow> (tally_state, tally_state, tally_state, tally_state) Worker" where
  "shard n =
     (NewWorker 0 [] False 0 0)
       \<lparr>metrics := word_of_nat n,
        counters := map (\<lambda>k. (word_of_nat k, (''requests'', 1))) [0..<n]\<rparr>"

definition fleet :: "nat \<Rightarrow> (tally_state, tally_state, tally_state, tally_state) Server" where
  "fleet n =
     \<lparr>Workers = [shard n], Server_Hostname = ''veneur-1'',
      DDHostname = ''https://app.datadoghq.com'', DDAPIKey = ''key''\<rparr>"

definition accepted :: part_io where
  "accepted =
     \<lparr>Encode_err = None, Body_len = 64, NewRequest_err = None,
      Do_result = Inr \<lparr>Status = ''202 Accepted'', StatusCode = 202, Header = []\<rparr>,
      ReadAll_result = (''ok'', None)\<rparr>"

definition accepting :: "nat \<Rightarrow> part_io" where
  "accepting i = accepted"

text \<open>
  Three observations: one of a kind the worker does not know, a counter whose value is
  a string, and a set whose value is a float. The sample rate is the \<^verbatim>\<open>float32\<close> 1.0.
\<close>

definition meter :: Metric where
  "meter =
     \<lparr>Name = ''requests'', Digest = 7, Type = ''meter'', Value = VFloat64 f64_one,
      SampleRate = 0x3F800000, Tags = [''env:prod'']\<rparr>"

definition counter_of_string :: Metric where
  "counter_of_string =
     \<lparr>Name = ''requests'', Digest = 7, Type = ''counter'', Value = VString ''12'',
      SampleRate = 0x3F800000, Tags = [''env:prod'']\<rparr>"

definition set_of_float :: Metric where
  "set_of_float =
     \<lparr>Name = ''users'', Digest = 9, Type = ''set'', Value = VFloat64 f64_one,
      SampleRate = 0x3F800000, Tags = []\<rparr>"

text \<open>
  Answers of the world to a submission, besides \<open>accepted\<close>: the encoder fails, the
  request cannot be built, the transport fails, the backend answers 500, and the backend
  answers 202 but its body cannot be read.
\<close>

definition unencodable :: part_io where
  "unencodable = accepted\<lparr>Encode_err := Some ''json: unsupported value: NaN''\<rparr>"

definition unbuildable :: part_io where
  "unbuildable = accepted\<lparr>NewRequest_err := Some ''parse: invalid URL escape''\<rparr>"

definition unreachable :: part_io where
  "unreachable = accepted\<lparr>Do_result := Inl ''dial tcp: i/o timeout''\<rparr>"

definition rejected :: part_io where
  "rejected =
     accepted\<lparr>Do_result :=
       Inr \<lparr>Status = ''500 Internal Server Error'', StatusCode = 500, Header = []\<rparr>\<rparr>"

definition unread :: part_io where
  "unread = accepted\<lparr>ReadAll_result := ([], Some ''unexpected EOF'')\<rparr>"

definition two_records :: "tally_state DDMetric list" where
  "two_records =
     [\<lparr>Fields = (''requests'', 1), Hostname = ''veneur-1''\<rparr>,
      \<lparr>Fields = (''latency'', 3), Hostname = ''veneur-1''\<rparr>]"

section \<open>Reading the events\<close>

text \<open>An error-level log line is how the worker reports an observation it drops.\<close>

fun is_diagnostic :: "event \<Rightarrow> bool" where
  "is_diagnostic (Log Error fs msg) = True"
| "is_diagnostic e = False"

text \<open>
  The events a goroutine produces while it holds the mutex: those after a
  \<^verbatim>\<open>Lock\<close> and before the next \<^verbatim>\<open>Unlock\<close>. The flag says whether the mutex is held
  at the start.
\<close>

fun while_locked :: "bool \<Rightarrow> event list \<Rightarrow> event list" where
  "while_locked held [] = []"
| "while_locked held (MutexLock # es) = while_locked True es"
| "while_locked held (MutexUnlock # es) = while_locked False es"
| "while_locked held (e # es) = (if held then e # while_locked held es else while_locked held es)"

text \<open>
  What counts as recording an error, for the flusher: an error-level log line, or a count
  on \<^verbatim>\<open>flush.error_total\<close>. A submission is a call of the HTTP client.
\<close>

fun is_error_record :: "event \<Rightarrow> bool" where
  "is_error_record (Log Error fs msg) = True"
| "is_error_record (StatsCount name n tags rate) = (name = ''flush.error_total'')"
| "is_error_record e = False"

fun is_submission :: "event \<Rightarrow> bool" where
  "is_submission (HttpDo url headers n) = True"
| "is_submission e = False"

text \<open>The failures a goroutine has counted: value and tags of each count on \<^verbatim>\<open>flush.error_total\<close>.\<close>

fun error_counts :: "event list \<Rightarrow> (int64 \<times> string list) list" where
  "error_counts [] = []"
| "error_counts (StatsCount name n tags rate # es) =
     (if name = ''flush.error_total'' then (n, tags) # error_counts es else error_counts es)"
| "error_counts (e # es) = error_counts es"

section \<open>Ingestion concurrent with a flush\<close>

text \<open>
  Two goroutines work on one worker: the worker's own loop (\<^verbatim>\<open>Worker.Work\<close>), which
  receives observations from \<^verbatim>\<open>WorkChan\<close> and calls \<^verbatim>\<open>ProcessMetric\<close> on each, and a
  caller of \<^verbatim>\<open>Worker.Flush\<close>. They are modelled as two programs over one shared state,
  run one step at a time in the order a schedule gives; a schedule is any list of
  goroutine names, so the runs are all interleavings of the two programs. Memory is
  sequentially consistent. The mutex is a variable that says who holds it: \<^verbatim>\<open>Lock\<close> is a
  step that can only be taken when nobody holds the mutex (scheduled otherwise, the
  goroutine stays where it is), \<^verbatim>\<open>Unlock\<close> a step that releases it.

  The program counters name the places between the steps. Of the loop:
  \<^item> \<open>Receiving\<close>: at \<^verbatim>\<open>case m := <-w.WorkChan\<close>;
  \<^item> \<open>AtLock m\<close>: in \<^verbatim>\<open>ProcessMetric(&m)\<close>, before \<^verbatim>\<open>w.mutex.Lock()\<close>;
  \<^item> \<open>InBody m\<close>: holding the mutex, before \<^verbatim>\<open>w.metrics++\<close> and the \<^verbatim>\<open>switch\<close>;
  \<^item> \<open>AtUnlock p\<close>: the body has returned, or panicked with \<open>p\<close>; the deferred
    \<^verbatim>\<open>Unlock\<close> is next. A panic that nobody recovers ends the program: after it no
    goroutine takes a step.

  Of \<^verbatim>\<open>Flush\<close>:
  \<^item> \<open>F_AtLock\<close>: before \<^verbatim>\<open>w.mutex.Lock()\<close> (the capacity computed before it reads
    lengths only and changes no value);
  \<^item> \<open>F_Locked\<close>: holding the mutex, before the five maps are copied to the locals;
  \<^item> \<open>F_Taken l\<close>: the locals hold \<open>l\<close>; before the fresh maps are installed and
    the counter is reset;
  \<^item> \<open>F_AtUnlock l\<close>: before \<^verbatim>\<open>w.mutex.Unlock()\<close>;
  \<^item> \<open>F_Unlocked l\<close>: before the five loops that flush the samplers of the locals;
  \<^item> \<open>F_Returned out\<close>: \<^verbatim>\<open>Flush\<close> has returned \<open>out\<close>.

  Two fields record history and influence no step: \<open>ingested\<close>, the observations
  whose \<^verbatim>\<open>ProcessMetric\<close> body has run, in that order, and \<open>swap_at\<close>, how many of them
  had run when \<^verbatim>\<open>Flush\<close> took the maps.
\<close>

datatype tid = Ingest | Flusher

type_synonym ('c, 'g, 'h, 's) taken = "'c gomap \<times> 'g gomap \<times> 'h gomap \<times> 's gomap \<times> 'h gomap"

datatype ipc =
    Receiving
  | AtLock Metric
  | InBody Metric
  | AtUnlock "panic option"

datatype ('c, 'g, 'h, 's, 'p) fpc =
    F_AtLock
  | F_Locked
  | F_Taken "('c, 'g, 'h, 's) taken"
  | F_AtUnlock "('c, 'g, 'h, 's) taken"
  | F_Unlocked "('c, 'g, 'h, 's) taken"
  | F_Returned "'p DDMetric list"

record ('c, 'g, 'h, 's, 'p) sys =
  shared :: "('c, 'g, 'h, 's) Worker"
  mutex :: "tid option"
  WorkChan :: "Metric list"
  ingest :: ipc
  flusher :: "('c, 'g, 'h, 's, 'p) fpc"
  crashed :: "panic option"
  ingested :: "Metric list"
  swap_at :: nat

definition take_maps :: "('c, 'g, 'h, 's) Worker \<Rightarrow> ('c, 'g, 'h, 's) taken" where
  "take_maps w = (counters w, gauges w, histograms w, sets w, timers w)"

definition install_fresh :: "('c, 'g, 'h, 's) Worker \<Rightarrow> ('c, 'g, 'h, 's) Worker" where
  "install_fresh w =
     w\<lparr>counters := [], gauges := [], histograms := [], sets := [], timers := [], metrics := 0\<rparr>"

definition flush_taken ::
  "('c, 'g, 'h, 's, 'p) samplers \<Rightarrow> ('c, 'g, 'h, 's) taken \<Rightarrow> Duration \<Rightarrow> 'p DDMetric list" where
  "flush_taken sm l interval =
     (case l of
        (counters_l, gauges_l, histograms_l, sets_l, timers_l) \<Rightarrow>
          concat (map (\<lambda>(k, v). Counter_Flush sm v interval) counters_l) @
          concat (map (\<lambda>(k, v). Gauge_Flush sm v) gauges_l) @
          concat (map (\<lambda>(k, v). Histo_Flush sm v interval) histograms_l) @
          concat (map (\<lambda>(k, v). Set_Flush sm v) sets_l) @
          concat (map (\<lambda>(k, v). Histo_Flush sm v interval) timers_l))"

definition ingest_step ::
  "('c, 'g, 'h, 's, 'p) samplers \<Rightarrow> ('c, 'g, 'h, 's, 'p) sys \<Rightarrow> ('c, 'g, 'h, 's, 'p) sys" where
  "ingest_step sm st =
     (case ingest st of
        Receiving \<Rightarrow>
          (case WorkChan st of
             [] \<Rightarrow> st
           | m # ms \<Rightarrow> st\<lparr>WorkChan := ms, ingest := AtLock m\<rparr>)
      | AtLock m \<Rightarrow>
          (if mutex st = None then st\<lparr>mutex := Some Ingest, ingest := InBody m\<rparr> else st)
      | InBody m \<Rightarrow>
          (case ProcessMetric sm (shared st) m of
             (w', ev, p) \<Rightarrow>
               st\<lparr>shared := w', ingested := ingested st @ [m], ingest := AtUnlock p\<rparr>)
      | AtUnlock p \<Rightarrow> st\<lparr>mutex := None, ingest := Receiving, crashed := p\<rparr>)"

definition flusher_step ::
  "('c, 'g, 'h, 's, 'p) samplers \<Rightarrow> Duration \<Rightarrow> ('c, 'g, 'h, 's, 'p) sys \<Rightarrow> ('c, 'g, 'h, 's, 'p) sys" where
  "flusher_step sm interval st =
     (case flusher st of
        F_AtLock \<Rightarrow>
          (if mutex st = None then st\<lparr>mutex := Some Flusher, flusher := F_Locked\<rparr> else st)
      | F_Locked \<Rightarrow> st\<lparr>flusher := F_Taken (take_maps (shared st)), swap_at := length (ingested st)\<rparr>
      | F_Taken l \<Rightarrow> st\<lparr>shared := install_fresh (shared st), flusher := F_AtUnlock l\<rparr>
      | F_AtUnlock l \<Rightarrow> st\<lparr>mutex := None, flusher := F_Unlocked l\<rparr>
      | F_Unlocked l \<Rightarrow> st\<lparr>flusher := F_Returned (flush_taken sm l interval)\<rparr>
      | F_Returned out \<Rightarrow> st)"

definition step ::
  "('c, 'g, 'h, 's, 'p) samplers \<Rightarrow> Duration \<Rightarrow> tid \<Rightarrow> ('c, 'g, 'h, 's, 'p) sys \<Rightarrow> ('c, 'g, 'h, 's, 'p) sys" where
  "step sm interval t st =
     (if crashed st \<noteq> None then st
      else case t of Ingest \<Rightarrow> ingest_step sm st | Flusher \<Rightarrow> flusher_step sm interval st)"

definition run ::
  "('c, 'g, 'h, 's, 'p) samplers \<Rightarrow> Duration \<Rightarrow> tid list \<Rightarrow> ('c, 'g, 'h, 's, 'p) sys \<Rightarrow> ('c, 'g, 'h, 's, 'p) sys" where
  "run sm interval schedule st = fold (step sm interval) schedule st"

definition start :: "('c, 'g, 'h, 's) Worker \<Rightarrow> Metric list \<Rightarrow> ('c, 'g, 'h, 's, 'p) sys" where
  "start w observations =
     \<lparr>shared = w, mutex = None, WorkChan = observations, ingest = Receiving, flusher = F_AtLock,
      crashed = None, ingested = [], swap_at = 0\<rparr>"

definition process_all ::
  "('c, 'g, 'h, 's, 'p) samplers \<Rightarrow> ('c, 'g, 'h, 's) Worker \<Rightarrow> Metric list \<Rightarrow> ('c, 'g, 'h, 's) Worker" where
  "process_all sm w ms = fold (\<lambda>m w. fst (ProcessMetric sm w m)) ms w"

text \<open>
  The invariant of the runs: who holds the mutex, where the observations of the channel
  are, and what the shared state is in each phase of \<^verbatim>\<open>Flush\<close>.
\<close>

definition current :: "ipc \<Rightarrow> Metric list" where
  "current pc = (case pc of AtLock m \<Rightarrow> [m] | InBody m \<Rightarrow> [m] | _ \<Rightarrow> [])"

definition holds_I :: "ipc \<Rightarrow> bool" where
  "holds_I pc = (case pc of InBody m \<Rightarrow> True | AtUnlock p \<Rightarrow> True | _ \<Rightarrow> False)"

definition holds_F :: "('c, 'g, 'h, 's, 'p) fpc \<Rightarrow> bool" where
  "holds_F pc = (case pc of F_Locked \<Rightarrow> True | F_Taken l \<Rightarrow> True | F_AtUnlock l \<Rightarrow> True | _ \<Rightarrow> False)"

definition swapped ::
  "('c, 'g, 'h, 's, 'p) samplers \<Rightarrow> ('c, 'g, 'h, 's) Worker \<Rightarrow> ('c, 'g, 'h, 's, 'p) sys \<Rightarrow>
   ('c, 'g, 'h, 's) taken \<Rightarrow> bool" where
  "swapped sm w0 st l =
     (swap_at st \<le> length (ingested st) \<and>
      l = take_maps (process_all sm w0 (take (swap_at st) (ingested st))) \<and>
      shared st =
        process_all sm (install_fresh (process_all sm w0 (take (swap_at st) (ingested st))))
          (drop (swap_at st) (ingested st)))"

definition Inv ::
  "('c, 'g, 'h, 's, 'p) samplers \<Rightarrow> Duration \<Rightarrow> ('c, 'g, 'h, 's) Worker \<Rightarrow> Metric list \<Rightarrow>
   ('c, 'g, 'h, 's, 'p) sys \<Rightarrow> bool" where
  "Inv sm iv w0 obs st =
     ((crashed st = None \<longrightarrow>
         (mutex st = Some Ingest) = holds_I (ingest st) \<and>
         (mutex st = Some Flusher) = holds_F (flusher st)) \<and>
      obs = ingested st @ current (ingest st) @ WorkChan st \<and>
      (case flusher st of
         F_AtLock \<Rightarrow> shared st = process_all sm w0 (ingested st)
       | F_Locked \<Rightarrow> shared st = process_all sm w0 (ingested st)
       | F_Taken l \<Rightarrow>
           swap_at st = length (ingested st) \<and> l = take_maps (process_all sm w0 (ingested st)) \<and>
           shared st = process_all sm w0 (ingested st)
       | F_AtUnlock l \<Rightarrow> swapped sm w0 st l
       | F_Unlocked l \<Rightarrow> swapped sm w0 st l
       | F_Returned out \<Rightarrow>
           (\<exists>l. swapped sm w0 st l \<and> out = flush_taken sm l iv)))"

text \<open>
  A well-formed counter observation, and a schedule in which the loop ingests one
  observation before \<^verbatim>\<open>Flush\<close> takes the mutex, waits for the mutex with the second one
  while the maps are swapped, and ingests it afterwards.
\<close>

definition hit :: Metric where
  "hit =
     \<lparr>Name = ''requests'', Digest = 7, Type = ''counter'', Value = VFloat64 f64_one,
      SampleRate = 0x3F800000, Tags = [''env:prod'']\<rparr>"

definition overlap :: "tid list" where
  "overlap =
     [Ingest, Ingest, Ingest, Ingest, Flusher, Ingest, Ingest, Flusher, Flusher, Flusher,
      Ingest, Ingest, Flusher, Ingest]"

section \<open>The chunk arithmetic\<close>

lemma sdiv_nonneg: "0 \<le> a \<Longrightarrow> 0 < b \<Longrightarrow> (a::int) sdiv b = a div b"
  by (simp add: signed_divide_int_def sgn_if)

lemma go_quo_nonneg: "0 \<le> a \<Longrightarrow> 0 < b \<Longrightarrow> go_quo a b = Inr (a div b)"
  by (simp add: go_quo_def sdiv_nonneg)

lemma div_lower: "0 < (b::int) \<Longrightarrow> (a div b) * b \<le> a"
proof -
  assume b: "0 < b"
  have "a = b * (a div b) + a mod b" by simp
  moreover have "0 \<le> a mod b" using b by simp
  ultimately have "b * (a div b) \<le> a" by linarith
  then show ?thesis by (simp add: mult.commute)
qed

lemma div_upper: "0 < (b::int) \<Longrightarrow> a < (a div b + 1) * b"
proof -
  assume b: "0 < b"
  have "a = b * (a div b) + a mod b" by simp
  moreover have "a mod b < b" using b by simp
  ultimately have "a < b * (a div b) + b" by linarith
  then show ?thesis by (simp add: algebra_simps)
qed

text \<open>Rounding-up division, as the code writes it, is the ceiling of the quotient.\<close>

lemma ceil_div_int:
  assumes "0 < (b::int)"
  shows "\<lceil>(of_int a :: real) / of_int b\<rceil> = (a - 1) div b + 1"
proof -
  let ?q = "(a - 1) div b"
  let ?r = "(a - 1) mod b"
  have r: "0 \<le> ?r" "?r < b" using assms by simp_all
  have "a - 1 = b * ?q + ?r" by simp
  then have "- a = b * (- (?q + 1)) + (b - 1 - ?r)" by (simp add: algebra_simps)
  moreover have "0 \<le> b - 1 - ?r" "b - 1 - ?r < b" using r by linarith+
  ultimately have "(- a) div b = - (?q + 1)" by (rule int_div_pos_eq)
  then show ?thesis by (simp add: ceiling_divide_eq_div)
qed

lemma plan_facts:
  fixes T L :: int
  assumes T: "1 \<le> T" and L: "1 \<le> L"
  assumes W: "W = (T - 1) div L + 1" and c: "c = (T - 1) div W + 1"
  shows "1 \<le> W" and "1 \<le> c" and "c \<le> L" and "(W - 1) * c < T" and "T \<le> W * c"
proof -
  show W1: "1 \<le> W" using T L by (simp add: W pos_imp_zdiv_nonneg_iff)
  show c1: "1 \<le> c" using T W1 by (simp add: c pos_imp_zdiv_nonneg_iff)
  have up: "T - 1 < W * L" using div_upper [of L "T - 1"] L by (simp add: W)
  have lo: "(W - 1) * L \<le> T - 1" using div_lower [of L "T - 1"] L by (simp add: W)
  have "(T - 1) div W < L"
  proof (rule ccontr)
    assume "\<not> (T - 1) div W < L"
    then have "L \<le> (T - 1) div W" by simp
    then have "L * W \<le> ((T - 1) div W) * W" using W1 by (simp add: mult_right_mono)
    also have "\<dots> \<le> T - 1" using div_lower [of W "T - 1"] W1 by simp
    finally show False using up by (simp add: mult.commute)
  qed
  then show cL: "c \<le> L" by (simp add: c)
  have "(W - 1) * c \<le> (W - 1) * L" using cL W1 by (simp add: mult_left_mono)
  then show "(W - 1) * c < T" using lo by linarith
  show "T \<le> W * c" using div_upper [of W "T - 1"] W1 by (simp add: c mult.commute)
qed

lemma chunk_plan_ok:
  assumes "1 \<le> T" "1 \<le> L"
  shows "chunk_plan T L = Inr ((T - 1) div L + 1, (T - 1) div ((T - 1) div L + 1) + 1)"
proof -
  have "1 \<le> (T - 1) div L + 1" using assms by (simp add: pos_imp_zdiv_nonneg_iff)
  then show ?thesis using assms by (simp add: chunk_plan_def go_quo_nonneg Let_def)
qed

text \<open>The indices of a chunk that is not the last one.\<close>

lemma chunk_arith_in_range:
  fixes i W c :: int
  assumes "0 \<le> i" "i < W - 1" "1 \<le> c" "(W - 1) * c \<le> n"
  shows "0 \<le> i * c" and "i * c + c \<le> n"
proof -
  show "0 \<le> i * c" using assms by simp
  have "i + 1 \<le> W - 1" using assms by simp
  then have "(i + 1) * c \<le> (W - 1) * c" using assms(3) by (intro mult_right_mono) simp_all
  then show "i * c + c \<le> n" using assms(4) by (simp add: algebra_simps)
qed

section \<open>The chunk loop\<close>

lemma chunk_loop_done: "\<not> i < W \<Longrightarrow> chunk_loop fm W c i = ([], None)"
  by (simp add: chunk_loop.simps)

lemma chunk_loop_last:
  assumes "i = W - 1" "0 \<le> i * c" "i * c \<le> int (length fm)"
  shows "chunk_loop fm W c i = ([drop (nat (i * c)) fm], None)"
  using assms by (subst chunk_loop.simps) (simp add: slice_from_def chunk_loop_done)

lemma chunk_loop_step:
  assumes "i < W - 1" "0 \<le> i * c" "0 \<le> c" "i * c + c \<le> int (length fm)"
  shows "chunk_loop fm W c i =
           (take (nat c) (drop (nat (i * c)) fm) # fst (chunk_loop fm W c (i + 1)),
            snd (chunk_loop fm W c (i + 1)))"
  using assms
  by (subst chunk_loop.simps) (simp add: slice_from_def slice_to_def split: prod.splits)

text \<open>
  When the last chunk starts inside the slice, the loop runs to its end without a panic:
  it gives \<open>W - i\<close> chunks, all but the last of size \<open>c\<close>, whose concatenation is the
  slice from \<open>i * c\<close> on.
\<close>

lemma chunk_loop_ok:
  "0 \<le> i \<Longrightarrow> i < W \<Longrightarrow> 1 \<le> c \<Longrightarrow> (W - 1) * c \<le> int (length fm) \<Longrightarrow>
     snd (chunk_loop fm W c i) = None \<and>
     length (fst (chunk_loop fm W c i)) = nat (W - i) \<and>
     concat (fst (chunk_loop fm W c i)) = drop (nat (i * c)) fm \<and>
     (\<forall>ch \<in> set (butlast (fst (chunk_loop fm W c i))). length ch = nat c) \<and>
     last (fst (chunk_loop fm W c i)) = drop (nat ((W - 1) * c)) fm"
proof (induction fm W c i rule: chunk_loop.induct)
  case (1 fm W c i)
  show ?case
  proof (cases "i < W - 1")
    case False
    with "1.prems" have iW: "i = W - 1" by simp
    have "0 \<le> i * c" using "1.prems" by simp
    then show ?thesis using chunk_loop_last [OF iW, of c fm] "1.prems" iW by simp
  next
    case True
    note b = chunk_arith_in_range [OF "1.prems"(1) True "1.prems"(3) "1.prems"(4)]
    have c0: "0 \<le> c" using "1.prems" by simp
    note st = chunk_loop_step [OF True b(1) c0 b(2)]
    have sf: "slice_from fm (i * c) = Inr (drop (nat (i * c)) fm)"
      using b c0 by (simp add: slice_from_def)
    have st2: "(if i < W - 1 then slice_to (drop (nat (i * c)) fm) c else Inr (drop (nat (i * c)) fm))
                 = Inr (take (nat c) (drop (nat (i * c)) fm))"
      using True b c0 by (simp add: slice_to_def)
    have IH: "snd (chunk_loop fm W c (i + 1)) = None \<and>
     length (fst (chunk_loop fm W c (i + 1))) = nat (W - (i + 1)) \<and>
     concat (fst (chunk_loop fm W c (i + 1))) = drop (nat ((i + 1) * c)) fm \<and>
     (\<forall>ch \<in> set (butlast (fst (chunk_loop fm W c (i + 1)))). length ch = nat c) \<and>
     last (fst (chunk_loop fm W c (i + 1))) = drop (nat ((W - 1) * c)) fm"
      using "1.IH" [OF _ sf st2] "1.prems" True by simp
    have ne: "fst (chunk_loop fm W c (i + 1)) \<noteq> []"
      using IH True by auto
    have len: "length (take (nat c) (drop (nat (i * c)) fm)) = nat c"
      using b c0 by (simp add: min_def) linarith
    have "nat ((i + 1) * c) = nat c + nat (i * c)"
      using b c0 by (simp add: algebra_simps nat_add_distrib)
    then have cat: "take (nat c) (drop (nat (i * c)) fm) @ drop (nat ((i + 1) * c)) fm
                 = drop (nat (i * c)) fm"
      by (simp add: drop_drop [symmetric] del: drop_drop)
    have "nat (W - i) = Suc (nat (W - (i + 1)))" using True by simp
    then show ?thesis using IH ne len cat by (simp add: st)
  qed
qed

section \<open>The flush cycle\<close>

lemma length_concat_sum: "int (length (concat xss)) = sum_list (map (\<lambda>xs. int (length xs)) xss)"
  by (induction xss) simp_all

text \<open>\<^verbatim>\<open>totalCount\<close> is the length of \<^verbatim>\<open>finalMetrics\<close>.\<close>

lemma length_finalMetrics: "int (length (finalMetrics sm s iv)) = totalCount sm s iv"
  by (simp add: finalMetrics_def totalCount_def length_concat_sum Let_def)

lemma parts_chunks:
  "map (fst \<circ> (\<lambda>(i, chunk). (chunk, f i chunk))) (enumerate n chunks) = chunks"
  by (induction chunks arbitrary: n) simp_all

lemma Server_Flush_parts:
  assumes "totalCount sm s iv \<noteq> 0" and "chunk_plan (totalCount sm s iv) L = Inr (W, c)"
  shows "map fst (parts (Server_Flush sm s iv L io)) = fst (chunk_loop (finalMetrics sm s iv) W c 0)"
    and "panicked (Server_Flush sm s iv L io) = snd (chunk_loop (finalMetrics sm s iv) W c 0)"
  using assms
  by (simp_all add: Server_Flush_def Let_def parts_chunks split: prod.splits option.splits)

lemma set_butlast_last: "xs \<noteq> [] \<Longrightarrow> x \<in> set xs \<Longrightarrow> x \<in> set (butlast xs) \<or> x = last xs"
  by (induction xs) (auto split: if_splits)

lemma length_concat_singletons: "length (concat (map (\<lambda>x. [f x]) xs)) = length xs"
  by (induction xs) simp_all

lemma totalCount_fleet: "totalCount tally (fleet n) iv = int n"
  by (simp add: totalCount_def flush_outputs_def fleet_def shard_def Worker_Flush_def tally_def
      NewWorker_def Let_def case_prod_beta comp_def length_concat_singletons)

section \<open>Claims\<close>

text \<open>
  Claim C1. In a flush cycle with \<open>totalCount \<ge> 1\<close> records and a \<open>metricLimit\<close>
  \<open>L \<ge> 1\<close>, \<^verbatim>\<open>Server.Flush\<close> hands exactly \<open>W = \<lceil>totalCount / L\<rceil>\<close> chunks to
  \<^verbatim>\<open>flushPart\<close>; every chunk has at most \<open>\<lceil>totalCount / W\<rceil>\<close> records, hence at most
  \<open>L\<close>; and the chunks, put end to end, are the combined record sequence itself, so
  every record is in exactly one chunk, once. The cycle does not panic.
\<close>

theorem Flush_chunks_partition:
  assumes L: "1 \<le> metricLimit" and T: "1 \<le> totalCount sm s interval"
  shows "let T = totalCount sm s interval;
             W = \<lceil>real_of_int T / real_of_int metricLimit\<rceil>;
             chunks = map fst (parts (Server_Flush sm s interval metricLimit io))
         in panicked (Server_Flush sm s interval metricLimit io) = None \<and>
            int (length chunks) = W \<and>
            (\<forall>ch \<in> set chunks.
               int (length ch) \<le> \<lceil>real_of_int T / real_of_int W\<rceil> \<and>
               int (length ch) \<le> metricLimit) \<and>
            concat chunks = finalMetrics sm s interval \<and>
            mset (concat chunks) = mset (finalMetrics sm s interval)"
proof -
  define T where "T = totalCount sm s interval"
  define W where "W = (T - 1) div metricLimit + 1"
  define c where "c = (T - 1) div W + 1"
  define fm where "fm = finalMetrics sm s interval"
  define chunks where "chunks = fst (chunk_loop fm W c 0)"
  have T1: "1 \<le> T" using T by (simp add: T_def)
  note pf = plan_facts [OF T1 L W_def c_def]
  have len: "int (length fm) = T" by (simp add: fm_def T_def length_finalMetrics)
  have plan: "chunk_plan T metricLimit = Inr (W, c)"
    using chunk_plan_ok [OF T1 L] by (simp add: W_def c_def)
  have T0: "totalCount sm s interval \<noteq> 0" using T by simp
  have chunks_eq: "map fst (parts (Server_Flush sm s interval metricLimit io)) = chunks"
    and pan: "panicked (Server_Flush sm s interval metricLimit io) = snd (chunk_loop fm W c 0)"
    using Server_Flush_parts [OF T0, of metricLimit W c io] plan
    by (simp_all add: T_def fm_def chunks_def)
  have "(W - 1) * c \<le> int (length fm)" using pf(4) len by simp
  with pf have ok: "snd (chunk_loop fm W c 0) = None \<and>
     length chunks = nat (W - 0) \<and>
     concat chunks = drop (nat (0 * c)) fm \<and>
     (\<forall>ch \<in> set (butlast chunks). length ch = nat c) \<and>
     last chunks = drop (nat ((W - 1) * c)) fm"
    unfolding chunks_def by (intro chunk_loop_ok) simp_all
  have cW: "\<lceil>real_of_int T / real_of_int metricLimit\<rceil> = W"
    using L by (simp add: ceil_div_int W_def)
  have cc: "\<lceil>real_of_int T / real_of_int W\<rceil> = c"
    using pf(1) by (simp add: ceil_div_int c_def)
  have ne: "chunks \<noteq> []" using ok pf(1) by auto
  have lastlen: "int (length (last chunks)) \<le> c"
  proof -
    have "int (length (last chunks)) = T - (W - 1) * c" using ok len pf by simp
    also have "\<dots> \<le> c" using pf(5) by (simp add: algebra_simps)
    finally show ?thesis .
  qed
  have sizes: "int (length ch) \<le> c" if "ch \<in> set chunks" for ch
    using set_butlast_last [OF ne that] ok lastlen pf(2) by auto
  have "\<forall>ch \<in> set chunks. int (length ch) \<le> c \<and> int (length ch) \<le> metricLimit"
    using sizes pf(3) by fastforce
  moreover have "int (length chunks) = W" using ok pf(1) by simp
  moreover have "concat chunks = fm" using ok by simp
  ultimately show ?thesis
    using ok pan chunks_eq cW cc by (simp add: Let_def T_def [symmetric] fm_def [symmetric])
qed

theorem Flush_chunks_partition_witness:
  "1 \<le> (3::int) \<and> 1 \<le> totalCount tally (fleet 7) 0 \<and>
   (let T = totalCount tally (fleet 7) 0;
        W = \<lceil>real_of_int T / real_of_int 3\<rceil>;
        chunks = map fst (parts (Server_Flush tally (fleet 7) 0 3 accepting))
    in panicked (Server_Flush tally (fleet 7) 0 3 accepting) = None \<and>
       int (length chunks) = W \<and>
       (\<forall>ch \<in> set chunks.
          int (length ch) \<le> \<lceil>real_of_int T / real_of_int W\<rceil> \<and>
          int (length ch) \<le> 3) \<and>
       concat chunks = finalMetrics tally (fleet 7) 0 \<and>
       mset (concat chunks) = mset (finalMetrics tally (fleet 7) 0))"
proof -
  have h1: "1 \<le> (3::int)" by simp
  have h2: "1 \<le> totalCount tally (fleet 7) 0" by (simp add: totalCount_fleet)
  show ?thesis
    using h1 h2 Flush_chunks_partition [OF h1 h2, of accepting] by blast
qed

text \<open>The cycle of 250 records under a limit of 100: three chunks, cut at 84 and 168.\<close>

lemma chunk_plan_250: "chunk_plan 250 100 = Inr (3, 84)"
  using chunk_plan_ok [of 250 100] by simp

lemma chunk_loop_250:
  assumes "length fm = 250"
  shows "chunk_loop fm 3 84 0 = ([take 84 fm, take 84 (drop 84 fm), drop 168 fm], None)"
proof -
  have 2: "chunk_loop fm 3 84 2 = ([drop 168 fm], None)"
    using chunk_loop_last [of 2 3 84 fm] assms by simp
  have 1: "chunk_loop fm 3 84 1 = ([take 84 (drop 84 fm), drop 168 fm], None)"
    using chunk_loop_step [of 1 3 84 fm] assms 2 by simp
  show ?thesis
    using chunk_loop_step [of 0 3 84 fm] assms 1 by simp
qed

lemma Flush_250:
  assumes "totalCount sm s iv = 250"
  shows "map fst (parts (Server_Flush sm s iv 100 io)) =
           [take 84 (finalMetrics sm s iv), take 84 (drop 84 (finalMetrics sm s iv)),
            drop 168 (finalMetrics sm s iv)]"
    and "panicked (Server_Flush sm s iv 100 io) = None"
proof -
  have len: "length (finalMetrics sm s iv) = 250"
    using length_finalMetrics [of sm s iv] assms by simp
  have T0: "totalCount sm s iv \<noteq> 0" using assms by simp
  have plan: "chunk_plan (totalCount sm s iv) 100 = Inr (3, 84)"
    using assms chunk_plan_250 by simp
  show "map fst (parts (Server_Flush sm s iv 100 io)) =
           [take 84 (finalMetrics sm s iv), take 84 (drop 84 (finalMetrics sm s iv)),
            drop 168 (finalMetrics sm s iv)]"
    using Server_Flush_parts(1) [OF T0 plan, of io] chunk_loop_250 [OF len] by simp
  show "panicked (Server_Flush sm s iv 100 io) = None"
    using Server_Flush_parts(2) [OF T0 plan, of io] chunk_loop_250 [OF len] by simp
qed

text \<open>
  Claim C2, as the specification states it: a cycle of exactly 250 records with
  \<open>metricLimit = 100\<close> gives three chunks of sizes 84, 83 and 83. The code cuts every
  chunk but the last at \<open>chunkSize = 84\<close> and lets the last one take what is left, so
  the sizes are 84, 84 and 82: the stated sizes do not occur.
\<close>

theorem Flush_250_sizes_counterexample:
  "totalCount tally (fleet 250) 0 = 250 \<and>
   map length (map fst (parts (Server_Flush tally (fleet 250) 0 100 accepting))) \<noteq> [84, 83, 83]"
proof -
  have h: "totalCount tally (fleet 250) 0 = 250" by (simp add: totalCount_fleet)
  have "length (finalMetrics tally (fleet 250) 0) = 250"
    using length_finalMetrics [of tally "fleet 250" 0] h by simp
  then show ?thesis using h Flush_250(1) [OF h, of accepting] by simp
qed

text \<open>
  Claim C2, amended. A cycle of exactly 250 records with \<open>metricLimit = 100\<close> gives
  three chunks of sizes 84, 84 and 82 (balanced sizes, not 100, 100 and 50); the chunks
  put end to end are the 250 records, each exactly once, and the cycle does not panic.
\<close>

theorem Flush_250_sizes:
  assumes "totalCount sm s interval = 250"
  shows "map length (map fst (parts (Server_Flush sm s interval 100 io))) = [84, 84, 82] \<and>
         concat (map fst (parts (Server_Flush sm s interval 100 io))) = finalMetrics sm s interval \<and>
         panicked (Server_Flush sm s interval 100 io) = None"
proof -
  have len: "length (finalMetrics sm s interval) = 250"
    using length_finalMetrics [of sm s interval] assms by simp
  have "take 84 (finalMetrics sm s interval) @ take 84 (drop 84 (finalMetrics sm s interval)) @
          drop 168 (finalMetrics sm s interval) = finalMetrics sm s interval"
    (is "?a @ ?b @ ?c = ?fm")
  proof -
    have "?b @ ?c = drop 84 ?fm"
      using append_take_drop_id [of 84 "drop 84 ?fm"] by simp
    then show ?thesis by simp
  qed
  then show ?thesis using Flush_250 [OF assms, of io] len by simp
qed

theorem Flush_250_sizes_witness:
  "totalCount tally (fleet 250) 0 = 250 \<and>
   map length (map fst (parts (Server_Flush tally (fleet 250) 0 100 accepting))) = [84, 84, 82] \<and>
   concat (map fst (parts (Server_Flush tally (fleet 250) 0 100 accepting))) =
     finalMetrics tally (fleet 250) 0 \<and>
   panicked (Server_Flush tally (fleet 250) 0 100 accepting) = None"
proof -
  have h: "totalCount tally (fleet 250) 0 = 250" by (simp add: totalCount_fleet)
  show ?thesis using h Flush_250_sizes [OF h, of accepting] by blast
qed

text \<open>
  Claim C9. With \<open>totalCount \<ge> 1\<close> and \<open>metricLimit \<ge> 1\<close> the chunk arithmetic is safe:
  neither division panics, \<open>workers \<ge> 1\<close> and \<open>chunkSize \<ge> 1\<close>; for every chunk but the
  last, \<open>i * chunkSize\<close> and \<open>i * chunkSize + chunkSize\<close> lie within the record sequence,
  so both slice expressions succeed; the last chunk starts strictly inside the sequence,
  \<open>(workers - 1) * chunkSize < totalCount\<close>, so it is not empty; and the cycle ends
  without a panic.
\<close>

theorem chunk_arithmetic_safe:
  assumes L: "1 \<le> metricLimit" and T: "1 \<le> totalCount sm s interval"
  shows "\<exists>workers chunkSize.
           chunk_plan (totalCount sm s interval) metricLimit = Inr (workers, chunkSize) \<and>
           1 \<le> workers \<and> 1 \<le> chunkSize \<and>
           (\<forall>i. 0 \<le> i \<and> i < workers - 1 \<longrightarrow>
              0 \<le> i * chunkSize \<and>
              i * chunkSize + chunkSize \<le> int (length (finalMetrics sm s interval)) \<and>
              (\<exists>chunk. slice_from (finalMetrics sm s interval) (i * chunkSize) = Inr chunk \<and>
                       slice_to chunk chunkSize = Inr (take (nat chunkSize) chunk))) \<and>
           (workers - 1) * chunkSize < int (length (finalMetrics sm s interval)) \<and>
           (\<exists>chunk. slice_from (finalMetrics sm s interval) ((workers - 1) * chunkSize) = Inr chunk \<and>
                    chunk \<noteq> [] \<and>
                    last (map fst (parts (Server_Flush sm s interval metricLimit io))) = chunk) \<and>
           panicked (Server_Flush sm s interval metricLimit io) = None"
proof -
  define T where "T = totalCount sm s interval"
  define W where "W = (T - 1) div metricLimit + 1"
  define c where "c = (T - 1) div W + 1"
  define fm where "fm = finalMetrics sm s interval"
  have T1: "1 \<le> T" using T by (simp add: T_def)
  note pf = plan_facts [OF T1 L W_def c_def]
  have len: "int (length fm) = T" by (simp add: fm_def T_def length_finalMetrics)
  have plan: "chunk_plan T metricLimit = Inr (W, c)"
    using chunk_plan_ok [OF T1 L] by (simp add: W_def c_def)
  have T0: "totalCount sm s interval \<noteq> 0" using T by simp
  have Wc: "(W - 1) * c \<le> int (length fm)" using pf(4) len by simp
  have ok: "snd (chunk_loop fm W c 0) = None \<and>
     length (fst (chunk_loop fm W c 0)) = nat (W - 0) \<and>
     concat (fst (chunk_loop fm W c 0)) = drop (nat (0 * c)) fm \<and>
     (\<forall>ch \<in> set (butlast (fst (chunk_loop fm W c 0))). length ch = nat c) \<and>
     last (fst (chunk_loop fm W c 0)) = drop (nat ((W - 1) * c)) fm"
    using pf Wc by (intro chunk_loop_ok) simp_all
  have nonfinal: "0 \<le> i * c \<and> i * c + c \<le> int (length fm) \<and>
          (\<exists>chunk. slice_from fm (i * c) = Inr chunk \<and> slice_to chunk c = Inr (take (nat c) chunk))"
    if "0 \<le> i \<and> i < W - 1" for i
  proof -
    have b: "0 \<le> i * c" "i * c + c \<le> int (length fm)"
      using chunk_arith_in_range [of i W c "int (length fm)"] that pf(2) Wc by simp_all
    have "slice_from fm (i * c) = Inr (drop (nat (i * c)) fm)"
      using b pf(2) by (simp add: slice_from_def)
    moreover have "slice_to (drop (nat (i * c)) fm) c = Inr (take (nat c) (drop (nat (i * c)) fm))"
      using b pf(2) by (simp add: slice_to_def)
    ultimately show ?thesis using b by simp
  qed
  have W0: "0 \<le> (W - 1) * c" using pf by simp
  have final: "slice_from fm ((W - 1) * c) = Inr (drop (nat ((W - 1) * c)) fm)"
    using W0 Wc by (simp add: slice_from_def)
  have fne: "drop (nat ((W - 1) * c)) fm \<noteq> []"
    using pf(4) len W0 by simp
  have lst: "last (map fst (parts (Server_Flush sm s interval metricLimit io))) =
               drop (nat ((W - 1) * c)) fm"
    using Server_Flush_parts(1) [OF T0, of metricLimit W c io] plan ok
    by (simp add: T_def fm_def)
  have pan: "panicked (Server_Flush sm s interval metricLimit io) = None"
    using Server_Flush_parts(2) [OF T0, of metricLimit W c io] plan ok
    by (simp add: T_def fm_def)
  show ?thesis
    apply (rule exI [of _ W], rule exI [of _ c])
    using plan pf(1,2) nonfinal pf(4) len final fne lst pan
    by (simp add: T_def [symmetric] fm_def [symmetric])
qed

theorem chunk_arithmetic_safe_witness:
  "1 \<le> (3::int) \<and> 1 \<le> totalCount tally (fleet 7) 0 \<and>
   (\<exists>workers chunkSize.
      chunk_plan (totalCount tally (fleet 7) 0) 3 = Inr (workers, chunkSize) \<and>
      1 \<le> workers \<and> 1 \<le> chunkSize \<and>
      (\<forall>i. 0 \<le> i \<and> i < workers - 1 \<longrightarrow>
         0 \<le> i * chunkSize \<and>
         i * chunkSize + chunkSize \<le> int (length (finalMetrics tally (fleet 7) 0)) \<and>
         (\<exists>chunk. slice_from (finalMetrics tally (fleet 7) 0) (i * chunkSize) = Inr chunk \<and>
                  slice_to chunk chunkSize = Inr (take (nat chunkSize) chunk))) \<and>
      (workers - 1) * chunkSize < int (length (finalMetrics tally (fleet 7) 0)) \<and>
      (\<exists>chunk. slice_from (finalMetrics tally (fleet 7) 0) ((workers - 1) * chunkSize) = Inr chunk \<and>
               chunk \<noteq> [] \<and>
               last (map fst (parts (Server_Flush tally (fleet 7) 0 3 accepting))) = chunk) \<and>
      panicked (Server_Flush tally (fleet 7) 0 3 accepting) = None)"
proof -
  have h1: "1 \<le> (3::int)" by simp
  have h2: "1 \<le> totalCount tally (fleet 7) 0" by (simp add: totalCount_fleet)
  show ?thesis
    using h1 h2 chunk_arithmetic_safe [OF h1 h2, of accepting] by blast
qed

section \<open>The maps of a worker stay maps\<close>

lemma is_map_store: "is_map m \<Longrightarrow> is_map (store m k v)"
  by (simp add: is_map_def store_def distinct_update)

lemma is_map_sample_at: "is_map m \<Longrightarrow> is_map (sample_at m k f)"
  by (simp add: is_map_def sample_at_def distinct_map_entry)

lemma well_formed_NewWorker: "well_formed (NewWorker i ps hc n a)"
  by (simp add: well_formed_def is_map_def NewWorker_def)

lemma well_formed_metrics: "well_formed (w\<lparr>metrics := n\<rparr>) = well_formed w"
  by (simp add: well_formed_def)

lemma well_formed_process_counter:
  "well_formed w \<Longrightarrow> well_formed (fst (process_counter sm w m))"
  by (simp add: well_formed_def process_counter_def Let_def is_map_store is_map_sample_at
      split: dynamic.splits)

lemma well_formed_process_gauge:
  "well_formed w \<Longrightarrow> well_formed (fst (process_gauge sm w m))"
  by (simp add: well_formed_def process_gauge_def Let_def is_map_store is_map_sample_at
      split: dynamic.splits)

lemma well_formed_process_histogram:
  "well_formed w \<Longrightarrow> well_formed (fst (process_histogram sm w m))"
  by (simp add: well_formed_def process_histogram_def Let_def is_map_store is_map_sample_at
      split: dynamic.splits)

lemma well_formed_process_set:
  "well_formed w \<Longrightarrow> well_formed (fst (process_set sm w m))"
  by (simp add: well_formed_def process_set_def Let_def is_map_store is_map_sample_at
      split: dynamic.splits)

lemma well_formed_process_timer:
  "well_formed w \<Longrightarrow> well_formed (fst (process_timer sm w m))"
  by (simp add: well_formed_def process_timer_def Let_def is_map_store is_map_sample_at
      split: dynamic.splits)

lemma well_formed_ProcessMetric:
  assumes "well_formed w"
  shows "well_formed (fst (ProcessMetric sm w m))"
  using assms
  by (simp add: ProcessMetric_def Let_def well_formed_metrics well_formed_process_counter
      well_formed_process_gauge well_formed_process_histogram well_formed_process_set
      well_formed_process_timer)

lemma well_formed_Worker_Flush: "well_formed (fst (Worker_Flush sm w iv))"
  by (simp add: well_formed_def is_map_def Worker_Flush_def Let_def)

section \<open>Claims about the worker\<close>

text \<open>
  Claim C3, as the specification states it: an observation of an unknown kind leaves the
  worker's state entirely unchanged, the counter of processed observations included.
  \<^verbatim>\<open>w.metrics++\<close> comes before the \<^verbatim>\<open>switch\<close>, so the counter does change: here it goes
  from 0 to 1.
\<close>

theorem ProcessMetric_unknown_kind_counterexample:
  "Type meter \<notin> {''counter'', ''gauge'', ''histogram'', ''set'', ''timer''} \<and>
   metrics (fst (ProcessMetric tally (shard 0) meter)) \<noteq> metrics (shard 0)"
  by (simp add: ProcessMetric_def meter_def shard_def NewWorker_def Let_def)

text \<open>
  Claim C3, amended. For an observation whose kind is none of counter, gauge, histogram,
  set, timer, \<^verbatim>\<open>ProcessMetric\<close> logs the error \<^verbatim>\<open>Unknown metric type\<close>, drops the
  observation and does not panic; the five maps of the worker are the same after the call
  as before it, and the counter of processed observations is one more than before (it
  counts the dropped observation too).
\<close>

theorem ProcessMetric_unknown_kind:
  assumes "Type m \<notin> {''counter'', ''gauge'', ''histogram'', ''set'', ''timer''}"
  shows "ProcessMetric sm w m =
           (w\<lparr>metrics := metrics w + 1\<rparr>,
            [MutexLock, Log Error [(''type'', FString (Type m))] ''Unknown metric type'', MutexUnlock],
            None) \<and>
         counters (fst (ProcessMetric sm w m)) = counters w \<and>
         gauges (fst (ProcessMetric sm w m)) = gauges w \<and>
         histograms (fst (ProcessMetric sm w m)) = histograms w \<and>
         sets (fst (ProcessMetric sm w m)) = sets w \<and>
         timers (fst (ProcessMetric sm w m)) = timers w \<and>
         metrics (fst (ProcessMetric sm w m)) = metrics w + 1 \<and>
         metrics (fst (ProcessMetric sm w m)) \<noteq> metrics w"
  using assms by (simp add: ProcessMetric_def Let_def)

theorem ProcessMetric_unknown_kind_witness:
  "Type meter \<notin> {''counter'', ''gauge'', ''histogram'', ''set'', ''timer''} \<and>
   ProcessMetric tally (shard 0) meter =
     ((shard 0)\<lparr>metrics := metrics (shard 0) + 1\<rparr>,
      [MutexLock, Log Error [(''type'', FString (Type meter))] ''Unknown metric type'', MutexUnlock],
      None)"
proof -
  have h: "Type meter \<notin> {''counter'', ''gauge'', ''histogram'', ''set'', ''timer''}"
    by (simp add: meter_def)
  show ?thesis using h ProcessMetric_unknown_kind [OF h, of tally "shard 0"] by blast
qed

text \<open>The type assertion of each known kind, and the events around it.\<close>

lemma process_counter_panic:
  "snd (snd (process_counter sm w m)) = (case Value m of VFloat64 v \<Rightarrow> None | _ \<Rightarrow> Some TypeAssertion)"
  by (simp add: process_counter_def Let_def split: dynamic.splits)

lemma process_gauge_panic:
  "snd (snd (process_gauge sm w m)) = (case Value m of VFloat64 v \<Rightarrow> None | _ \<Rightarrow> Some TypeAssertion)"
  by (simp add: process_gauge_def Let_def split: dynamic.splits)

lemma process_histogram_panic:
  "snd (snd (process_histogram sm w m)) = (case Value m of VFloat64 v \<Rightarrow> None | _ \<Rightarrow> Some TypeAssertion)"
  by (simp add: process_histogram_def Let_def split: dynamic.splits)

lemma process_timer_panic:
  "snd (snd (process_timer sm w m)) = (case Value m of VFloat64 v \<Rightarrow> None | _ \<Rightarrow> Some TypeAssertion)"
  by (simp add: process_timer_def Let_def split: dynamic.splits)

lemma process_set_panic:
  "snd (snd (process_set sm w m)) = (case Value m of VString v \<Rightarrow> None | _ \<Rightarrow> Some TypeAssertion)"
  by (simp add: process_set_def Let_def split: dynamic.splits)

lemma process_counter_events:
  "\<forall>e \<in> set (fst (snd (process_counter sm w m))). \<not> is_diagnostic e"
  by (simp add: process_counter_def Let_def new_sampler_log_def split: dynamic.splits)

lemma process_gauge_events:
  "\<forall>e \<in> set (fst (snd (process_gauge sm w m))). \<not> is_diagnostic e"
  by (simp add: process_gauge_def Let_def new_sampler_log_def split: dynamic.splits)

lemma process_histogram_events:
  "\<forall>e \<in> set (fst (snd (process_histogram sm w m))). \<not> is_diagnostic e"
  by (simp add: process_histogram_def Let_def new_sampler_log_def split: dynamic.splits)

lemma process_timer_events:
  "\<forall>e \<in> set (fst (snd (process_timer sm w m))). \<not> is_diagnostic e"
  by (simp add: process_timer_def Let_def new_sampler_log_def split: dynamic.splits)

lemma process_set_events:
  "\<forall>e \<in> set (fst (snd (process_set sm w m))). \<not> is_diagnostic e"
  by (simp add: process_set_def Let_def new_sampler_log_def split: dynamic.splits)

lemma process_counter_metrics: "metrics (fst (process_counter sm w m)) = metrics w"
  by (simp add: process_counter_def Let_def split: dynamic.splits)

lemma process_gauge_metrics: "metrics (fst (process_gauge sm w m)) = metrics w"
  by (simp add: process_gauge_def Let_def split: dynamic.splits)

lemma process_histogram_metrics: "metrics (fst (process_histogram sm w m)) = metrics w"
  by (simp add: process_histogram_def Let_def split: dynamic.splits)

lemma process_timer_metrics: "metrics (fst (process_timer sm w m)) = metrics w"
  by (simp add: process_timer_def Let_def split: dynamic.splits)

lemma process_set_metrics: "metrics (fst (process_set sm w m)) = metrics w"
  by (simp add: process_set_def Let_def split: dynamic.splits)

lemmas process_panic = process_counter_panic process_gauge_panic process_histogram_panic
  process_timer_panic process_set_panic

lemmas process_events = process_counter_events process_gauge_events process_histogram_events
  process_timer_events process_set_events

lemmas process_metrics = process_counter_metrics process_gauge_metrics process_histogram_metrics
  process_timer_metrics process_set_metrics

text \<open>
  Claim C10. \<^verbatim>\<open>ProcessMetric\<close> does not check that the dynamic type of an observation's
  value fits its kind. For the kinds counter, gauge, histogram and timer the call panics
  with a failed type assertion exactly when the value is not a \<^verbatim>\<open>float64\<close>; for the kind
  set, exactly when it is not a \<^verbatim>\<open>string\<close>. A call that panics logs no diagnostic: the
  observation is not dropped with an error line, and it has already been counted.
\<close>

theorem ProcessMetric_value_precondition:
  "(Type m \<in> {''counter'', ''gauge'', ''histogram'', ''timer''} \<longrightarrow>
      (snd (snd (ProcessMetric sm w m)) = Some TypeAssertion) = (\<forall>v. Value m \<noteq> VFloat64 v) \<and>
      (snd (snd (ProcessMetric sm w m)) = None) = (\<exists>v. Value m = VFloat64 v)) \<and>
   (Type m = ''set'' \<longrightarrow>
      (snd (snd (ProcessMetric sm w m)) = Some TypeAssertion) = (\<forall>v. Value m \<noteq> VString v) \<and>
      (snd (snd (ProcessMetric sm w m)) = None) = (\<exists>v. Value m = VString v)) \<and>
   (snd (snd (ProcessMetric sm w m)) \<noteq> None \<longrightarrow>
      filter is_diagnostic (fst (snd (ProcessMetric sm w m))) = [] \<and>
      metrics (fst (ProcessMetric sm w m)) = metrics w + 1)"
proof (intro conjI impI)
  assume "Type m \<in> {''counter'', ''gauge'', ''histogram'', ''timer''}"
  then show "(snd (snd (ProcessMetric sm w m)) = Some TypeAssertion) = (\<forall>v. Value m \<noteq> VFloat64 v)"
    by (auto simp: ProcessMetric_def Let_def process_panic split: dynamic.splits)
next
  assume "Type m \<in> {''counter'', ''gauge'', ''histogram'', ''timer''}"
  then show "(snd (snd (ProcessMetric sm w m)) = None) = (\<exists>v. Value m = VFloat64 v)"
    by (auto simp: ProcessMetric_def Let_def process_panic split: dynamic.splits)
next
  assume "Type m = ''set''"
  then show "(snd (snd (ProcessMetric sm w m)) = Some TypeAssertion) = (\<forall>v. Value m \<noteq> VString v)"
    by (auto simp: ProcessMetric_def Let_def process_panic split: dynamic.splits)
next
  assume "Type m = ''set''"
  then show "(snd (snd (ProcessMetric sm w m)) = None) = (\<exists>v. Value m = VString v)"
    by (auto simp: ProcessMetric_def Let_def process_panic split: dynamic.splits)
next
  assume "snd (snd (ProcessMetric sm w m)) \<noteq> None"
  then show "filter is_diagnostic (fst (snd (ProcessMetric sm w m))) = []"
    using process_events [of sm "w\<lparr>metrics := metrics w + 1\<rparr>" m]
    by (simp add: ProcessMetric_def Let_def filter_empty_conv split: if_splits)
next
  assume "snd (snd (ProcessMetric sm w m)) \<noteq> None"
  then show "metrics (fst (ProcessMetric sm w m)) = metrics w + 1"
    by (simp add: ProcessMetric_def Let_def process_metrics split: if_splits)
qed

theorem ProcessMetric_value_precondition_witness:
  "Type counter_of_string \<in> {''counter'', ''gauge'', ''histogram'', ''timer''} \<and>
   snd (snd (ProcessMetric tally (shard 0) counter_of_string)) = Some TypeAssertion \<and>
   Type set_of_float = ''set'' \<and>
   snd (snd (ProcessMetric tally (shard 0) set_of_float)) = Some TypeAssertion \<and>
   filter is_diagnostic (fst (snd (ProcessMetric tally (shard 0) counter_of_string))) = [] \<and>
   metrics (fst (ProcessMetric tally (shard 0) counter_of_string)) = metrics (shard 0) + 1"
proof -
  have k1: "Type counter_of_string \<in> {''counter'', ''gauge'', ''histogram'', ''timer''}"
    by (simp add: counter_of_string_def)
  have v1: "\<forall>v. Value counter_of_string \<noteq> VFloat64 v" by (simp add: counter_of_string_def)
  have k2: "Type set_of_float = ''set''" by (simp add: set_of_float_def)
  have v2: "\<forall>v. Value set_of_float \<noteq> VString v" by (simp add: set_of_float_def)
  have p1: "snd (snd (ProcessMetric tally (shard 0) counter_of_string)) = Some TypeAssertion"
    using ProcessMetric_value_precondition [of counter_of_string tally "shard 0"] k1 v1 by blast
  have p2: "snd (snd (ProcessMetric tally (shard 0) set_of_float)) = Some TypeAssertion"
    using ProcessMetric_value_precondition [of set_of_float tally "shard 0"] k2 v2 by blast
  have "snd (snd (ProcessMetric tally (shard 0) counter_of_string)) \<noteq> None" using p1 by simp
  then have "filter is_diagnostic (fst (snd (ProcessMetric tally (shard 0) counter_of_string))) = [] \<and>
      metrics (fst (ProcessMetric tally (shard 0) counter_of_string)) = metrics (shard 0) + 1"
    using ProcessMetric_value_precondition [of counter_of_string tally "shard 0"] by blast
  then show ?thesis using k1 k2 p1 p2 by blast
qed

text \<open>
  Claim C4. Whatever the state of a worker, two calls of \<^verbatim>\<open>Flush\<close> in a row, with no
  \<^verbatim>\<open>ProcessMetric\<close> between them, return the accumulated records the first time and
  an empty sequence the second time: after the first call the five maps are empty and
  the counter of observations is zero, so the second call has nothing to flush and
  leaves the worker as it is.
\<close>

theorem Worker_Flush_twice:
  "(case Worker_Flush sm w interval of
      (w1, out1, ev1) \<Rightarrow>
        out1 =
          concat (map (\<lambda>(k, v). Counter_Flush sm v interval) (counters w)) @
          concat (map (\<lambda>(k, v). Gauge_Flush sm v) (gauges w)) @
          concat (map (\<lambda>(k, v). Histo_Flush sm v interval) (histograms w)) @
          concat (map (\<lambda>(k, v). Set_Flush sm v) (sets w)) @
          concat (map (\<lambda>(k, v). Histo_Flush sm v interval) (timers w)) \<and>
        counters w1 = [] \<and> gauges w1 = [] \<and> histograms w1 = [] \<and> sets w1 = [] \<and>
        timers w1 = [] \<and> metrics w1 = 0 \<and>
        (case Worker_Flush sm w1 interval' of (w2, out2, ev2) \<Rightarrow> out2 = [] \<and> w2 = w1))"
  by (simp add: Worker_Flush_def Let_def)

text \<open>What \<^verbatim>\<open>Worker.Flush\<close> emits between \<^verbatim>\<open>Lock\<close> and \<^verbatim>\<open>Unlock\<close>.\<close>

lemma Worker_Flush_locked:
  "while_locked False (snd (snd (Worker_Flush sm w interval))) =
     [StatsCount ''worker.metrics_processed_total'' (metrics w)
        [''worker:'' @ fmt_d (worker_id w)] f64_one]"
  by (simp add: Worker_Flush_def Let_def)

text \<open>
  Claim C5 says that during \<^verbatim>\<open>Worker.Flush\<close> the mutex is held only for taking the
  maps, installing fresh ones and resetting the counter, and that every emission on the
  self-observability channel happens while it is not held. The code calls
  \<^verbatim>\<open>w.stats.Count("worker.metrics_processed_total", ...)\<close> between \<^verbatim>\<open>Lock\<close> and
  \<^verbatim>\<open>Unlock\<close>: for a worker with id 0 that has processed two observations, this is the
  event produced while the mutex is held.
\<close>

theorem Worker_Flush_emits_under_lock:
  "while_locked False (snd (snd (Worker_Flush tally (shard 2) 10))) =
     [StatsCount ''worker.metrics_processed_total'' 2 [''worker:0''] f64_one]"
  by (simp add: Worker_Flush_locked shard_def NewWorker_def fmt_d_def fmt_nat.simps digit_char_def)

section \<open>Claims about the flusher\<close>

lemma Worker_Flush_quiet:
  "\<forall>e \<in> set (snd (snd (Worker_Flush sm w iv))). \<not> is_error_record e \<and> \<not> is_submission e"
  by (simp add: Worker_Flush_def Let_def)

lemma flush_workers_quiet:
  "\<forall>e \<in> set (snd (snd (flush_workers sm iv i ws))). \<not> is_error_record e \<and> \<not> is_submission e"
proof (induction ws arbitrary: i)
  case Nil
  show ?case by simp
next
  case (Cons w ws)
  show ?case
    using Cons [of "i + 1"] Worker_Flush_quiet [of sm w iv]
    by (auto split: prod.splits)
qed

lemma totalCount_fleet_0: "totalCount tally (fleet 0) 0 = 0"
  using totalCount_fleet [of 0 0] by simp

text \<open>
  Claim C6. In a flush cycle whose combined record sequence is empty (\<open>totalCount = 0\<close>),
  \<^verbatim>\<open>Server.Flush\<close> starts no submission: there is no chunk, no call of the HTTP
  client, and nothing after the early return. The last thing the cycle does is the
  informational log line \<^verbatim>\<open>Nothing to flush, skipping.\<close>; it logs no error and counts
  nothing on \<^verbatim>\<open>flush.error_total\<close>.
\<close>

theorem Flush_empty_cycle:
  assumes "totalCount sm s interval = 0"
  shows "parts (Server_Flush sm s interval metricLimit io) = [] \<and>
         after (Server_Flush sm s interval metricLimit io) = [] \<and>
         panicked (Server_Flush sm s interval metricLimit io) = None \<and>
         last (before (Server_Flush sm s interval metricLimit io)) =
           Log Info [] ''Nothing to flush, skipping.'' \<and>
         filter is_error_record (before (Server_Flush sm s interval metricLimit io)) = [] \<and>
         filter is_submission (before (Server_Flush sm s interval metricLimit io)) = []"
  using assms flush_workers_quiet [of sm interval 0 "Workers s"]
  by (simp add: Server_Flush_def Let_def filter_empty_conv)

theorem Flush_empty_cycle_witness:
  "totalCount tally (fleet 0) 0 = 0 \<and>
   parts (Server_Flush tally (fleet 0) 0 100 accepting) = [] \<and>
   after (Server_Flush tally (fleet 0) 0 100 accepting) = [] \<and>
   panicked (Server_Flush tally (fleet 0) 0 100 accepting) = None \<and>
   last (before (Server_Flush tally (fleet 0) 0 100 accepting)) =
     Log Info [] ''Nothing to flush, skipping.'' \<and>
   filter is_error_record (before (Server_Flush tally (fleet 0) 0 100 accepting)) = [] \<and>
   filter is_submission (before (Server_Flush tally (fleet 0) 0 100 accepting)) = []"
  using totalCount_fleet_0 Flush_empty_cycle [OF totalCount_fleet_0, of 100 accepting] by blast

text \<open>The digits of \<^verbatim>\<open>%d\<close>: a formatted status code is none of the three fixed causes.\<close>

lemma digit_char_in: "d < 10 \<Longrightarrow> digit_char d \<in> set ''0123456789''"
  unfolding digit_char_def by (rule nth_mem) simp

lemma fmt_nat_digits: "set (fmt_nat n) \<subseteq> set ''0123456789''"
proof (induction n rule: fmt_nat.induct)
  case (1 n)
  show ?case
  proof (cases "n < 10")
    case True
    then show ?thesis using digit_char_in [of n] by (subst fmt_nat.simps) simp
  next
    case False
    have "digit_char (n mod 10) \<in> set ''0123456789''" by (rule digit_char_in) simp
    then show ?thesis using 1 False by (subst fmt_nat.simps) simp
  qed
qed

lemma fmt_d_chars: "set (fmt_d k) \<subseteq> set (CHR ''-'' # ''0123456789'')"
proof (cases "k < 0")
  case True
  have sub: "set (fmt_nat (nat (- k))) \<subseteq> set (CHR ''-'' # ''0123456789'')"
    by (rule order_trans [OF fmt_nat_digits set_subset_Cons])
  have m: "CHR ''-'' \<in> set (CHR ''-'' # ''0123456789'')"
    by (rule list.set_intros(1))
  have "set (CHR ''-'' # fmt_nat (nat (- k))) \<subseteq> set (CHR ''-'' # ''0123456789'')"
    by (subst list.simps(15)) (rule insert_subsetI [OF m sub])
  then show ?thesis using True by (simp only: fmt_d_def if_True)
next
  case False
  have "set (fmt_nat (nat k)) \<subseteq> set (CHR ''-'' # ''0123456789'')"
    by (rule order_trans [OF fmt_nat_digits set_subset_Cons])
  then show ?thesis using False by (simp only: fmt_d_def if_False)
qed

lemma fmt_d_not_word: "fmt_d k \<noteq> ''json''" "fmt_d k \<noteq> ''construct''" "fmt_d k \<noteq> ''io''"
proof -
  have nj: "CHR ''j'' \<notin> set (CHR ''-'' # ''0123456789'')" by simp
  have nc: "CHR ''c'' \<notin> set (CHR ''-'' # ''0123456789'')" by simp
  have ni: "CHR ''i'' \<notin> set (CHR ''-'' # ''0123456789'')" by simp
  have j: "CHR ''j'' \<notin> set (fmt_d k)" by (rule contra_subsetD [OF fmt_d_chars nj])
  have c: "CHR ''c'' \<notin> set (fmt_d k)" by (rule contra_subsetD [OF fmt_d_chars nc])
  have i: "CHR ''i'' \<notin> set (fmt_d k)" by (rule contra_subsetD [OF fmt_d_chars ni])
  show "fmt_d k \<noteq> ''json''"
  proof
    assume "fmt_d k = ''json''"
    then have "CHR ''j'' \<in> set (fmt_d k)" by simp
    with j show False ..
  qed
  show "fmt_d k \<noteq> ''construct''"
  proof
    assume "fmt_d k = ''construct''"
    then have "CHR ''c'' \<in> set (fmt_d k)" by simp
    with c show False ..
  qed
  show "fmt_d k \<noteq> ''io''"
  proof
    assume "fmt_d k = ''io''"
    then have "CHR ''i'' \<in> set (fmt_d k)" by simp
    with i show False ..
  qed
qed

lemma fmt_d_500: "fmt_d 500 = ''500''"
  by (simp add: fmt_d_def fmt_nat.simps digit_char_def)

lemma error_counts_append: "error_counts (xs @ ys) = error_counts xs @ error_counts ys"
  by (induction xs rule: error_counts.induct) simp_all

text \<open>
  Claim C7. For a chunk handed to \<^verbatim>\<open>flushPart\<close>: nothing is counted on
  \<^verbatim>\<open>flush.error_total\<close> exactly when the chunk was encoded, the request was built, the
  transport returned a response and its status is 202. An encoding error, a request
  construction error, a transport error and a status other than 202 are each counted
  once, with the number of records of the chunk, under the tags \<^verbatim>\<open>cause:json\<close>,
  \<^verbatim>\<open>cause:construct\<close>, \<^verbatim>\<open>cause:io\<close> and \<^verbatim>\<open>cause:<status>\<close>, which are four different
  tags. The HTTP client is called at most once (no retry). Whether reading the response
  body fails changes nothing in what is counted.
\<close>

lemma flushPart_counts:
  "(error_counts (flushPart s ms io) = []) =
     (Encode_err io = None \<and> NewRequest_err io = None \<and>
      (\<exists>resp. Do_result io = Inr resp \<and> StatusCode resp = 202))"
  "Encode_err io = Some err \<Longrightarrow>
      error_counts (flushPart s ms io) = [(int64_of_len ms, [''cause:json''])]"
  "Encode_err io = None \<and> NewRequest_err io = Some err \<Longrightarrow>
      error_counts (flushPart s ms io) = [(int64_of_len ms, [''cause:construct''])]"
  "Encode_err io = None \<and> NewRequest_err io = None \<and> Do_result io = Inl err \<Longrightarrow>
      error_counts (flushPart s ms io) = [(int64_of_len ms, [''cause:io''])]"
  "Encode_err io = None \<and> NewRequest_err io = None \<and> Do_result io = Inr resp \<and>
           StatusCode resp \<noteq> 202 \<Longrightarrow>
      error_counts (flushPart s ms io) =
        [(int64_of_len ms, [''cause:'' @ fmt_d (StatusCode resp)])]"
  by (auto simp: flushPart_def StatusAccepted_def error_counts_append
           split: option.splits sum.splits)

lemma flushPart_once: "length (filter is_submission (flushPart s ms io)) \<le> 1"
  by (simp add: flushPart_def split: option.splits sum.splits)

lemma flushPart_body:
  "error_counts (flushPart s ms (io\<lparr>ReadAll_result := r\<rparr>)) = error_counts (flushPart s ms io)"
  by (simp add: flushPart_def error_counts_append split: option.splits sum.splits)

lemma causes_distinct:
  "distinct [''cause:json'', ''cause:construct'', ''cause:io'', ''cause:'' @ fmt_d k]"
  using fmt_d_not_word [of k] by simp

theorem flushPart_outcome:
  "(error_counts (flushPart s ms io) = []) =
     (Encode_err io = None \<and> NewRequest_err io = None \<and>
      (\<exists>resp. Do_result io = Inr resp \<and> StatusCode resp = 202)) \<and>
   (\<forall>err. Encode_err io = Some err \<longrightarrow>
      error_counts (flushPart s ms io) = [(int64_of_len ms, [''cause:json''])]) \<and>
   (\<forall>err. Encode_err io = None \<and> NewRequest_err io = Some err \<longrightarrow>
      error_counts (flushPart s ms io) = [(int64_of_len ms, [''cause:construct''])]) \<and>
   (\<forall>err. Encode_err io = None \<and> NewRequest_err io = None \<and> Do_result io = Inl err \<longrightarrow>
      error_counts (flushPart s ms io) = [(int64_of_len ms, [''cause:io''])]) \<and>
   (\<forall>resp. Encode_err io = None \<and> NewRequest_err io = None \<and> Do_result io = Inr resp \<and>
           StatusCode resp \<noteq> 202 \<longrightarrow>
      error_counts (flushPart s ms io) =
        [(int64_of_len ms, [''cause:'' @ fmt_d (StatusCode resp)])]) \<and>
   distinct [''cause:json'', ''cause:construct'', ''cause:io'', ''cause:'' @ fmt_d k] \<and>
   length (filter is_submission (flushPart s ms io)) \<le> 1 \<and>
   error_counts (flushPart s ms (io\<lparr>ReadAll_result := r\<rparr>)) = error_counts (flushPart s ms io)"
  using flushPart_counts [where s = s and ms = ms and io = io]
    flushPart_once [of s ms io] flushPart_body [where s = s and ms = ms and io = io and r = r] causes_distinct [of k]
  by blast

theorem flushPart_outcome_witness:
  "error_counts (flushPart (fleet 2) two_records accepted) = [] \<and>
   error_counts (flushPart (fleet 2) two_records unencodable) = [(2, [''cause:json''])] \<and>
   error_counts (flushPart (fleet 2) two_records unbuildable) = [(2, [''cause:construct''])] \<and>
   error_counts (flushPart (fleet 2) two_records unreachable) = [(2, [''cause:io''])] \<and>
   error_counts (flushPart (fleet 2) two_records rejected) = [(2, [''cause:500''])] \<and>
   error_counts (flushPart (fleet 2) two_records unread) = []"
proof -
  have n: "int64_of_len two_records = 2" by (simp add: int64_of_len_def two_records_def)
  have a: "Encode_err accepted = None \<and> NewRequest_err accepted = None \<and>
           (\<exists>resp. Do_result accepted = Inr resp \<and> StatusCode resp = 202)"
    by (simp add: accepted_def)
  have 1: "error_counts (flushPart (fleet 2) two_records accepted) = []"
    using flushPart_outcome [of "fleet 2" two_records accepted 0 "([], None)"] a by blast
  have "Encode_err unencodable = Some ''json: unsupported value: NaN''"
    by (simp add: unencodable_def)
  then have 2: "error_counts (flushPart (fleet 2) two_records unencodable) = [(2, [''cause:json''])]"
    using flushPart_outcome [of "fleet 2" two_records unencodable 0 "([], None)"] n by metis
  have "Encode_err unbuildable = None \<and> NewRequest_err unbuildable = Some ''parse: invalid URL escape''"
    by (simp add: unbuildable_def accepted_def)
  then have 3: "error_counts (flushPart (fleet 2) two_records unbuildable) = [(2, [''cause:construct''])]"
    using flushPart_outcome [of "fleet 2" two_records unbuildable 0 "([], None)"] n by metis
  have "Encode_err unreachable = None \<and> NewRequest_err unreachable = None \<and>
        Do_result unreachable = Inl ''dial tcp: i/o timeout''"
    by (simp add: unreachable_def accepted_def)
  then have 4: "error_counts (flushPart (fleet 2) two_records unreachable) = [(2, [''cause:io''])]"
    using flushPart_outcome [of "fleet 2" two_records unreachable 0 "([], None)"] n by metis
  have "Encode_err rejected = None \<and> NewRequest_err rejected = None \<and>
        Do_result rejected = Inr \<lparr>Status = ''500 Internal Server Error'', StatusCode = 500, Header = []\<rparr> \<and>
        StatusCode \<lparr>Status = ''500 Internal Server Error'', StatusCode = 500, Header = []\<rparr> \<noteq> 202"
    by (simp add: rejected_def accepted_def)
  then have "error_counts (flushPart (fleet 2) two_records rejected) =
      [(int64_of_len two_records,
        [''cause:'' @ fmt_d (StatusCode \<lparr>Status = ''500 Internal Server Error'', StatusCode = 500, Header = []\<rparr>)])]"
    using flushPart_outcome [of "fleet 2" two_records rejected 0 "([], None)"] by blast
  then have 5: "error_counts (flushPart (fleet 2) two_records rejected) = [(2, [''cause:500''])]"
    using n by (simp add: fmt_d_500)
  have "unread = accepted\<lparr>ReadAll_result := ([], Some ''unexpected EOF'')\<rparr>"
    by (simp add: unread_def)
  then have 6: "error_counts (flushPart (fleet 2) two_records unread) = []"
    using flushPart_outcome [of "fleet 2" two_records accepted 0 "([], Some ''unexpected EOF'')"] 1
    by simp
  show ?thesis using 1 2 3 4 5 6 by blast
qed

section \<open>Claims about ingestion concurrent with a flush\<close>

lemma Worker_Flush_split:
  "fst (Worker_Flush sm w iv) = install_fresh w"
  "fst (snd (Worker_Flush sm w iv)) = flush_taken sm (take_maps w) iv"
  by (simp_all add: Worker_Flush_def install_fresh_def flush_taken_def take_maps_def Let_def)

lemma process_all_snoc:
  "process_all sm w (ms @ [m]) = fst (ProcessMetric sm (process_all sm w ms) m)"
  by (simp add: process_all_def)

lemma Inv_start: "Inv sm iv w0 obs (start w0 obs)"
  by (simp add: Inv_def start_def current_def holds_I_def holds_F_def process_all_def)

lemma Inv_ingest:
  assumes "Inv sm iv w0 obs st" "crashed st = None"
  shows "Inv sm iv w0 obs (ingest_step sm st)"
  using assms
  by (cases "ingest st"; cases "flusher st")
     (auto simp: Inv_def ingest_step_def current_def holds_I_def holds_F_def swapped_def
        process_all_snoc
        split: list.splits prod.splits if_splits)

lemma Inv_flusher:
  assumes "Inv sm iv w0 obs st" "crashed st = None"
  shows "Inv sm iv w0 obs (flusher_step sm iv st)"
  using assms
  by (cases "ingest st"; cases "flusher st")
     (auto simp: Inv_def flusher_step_def current_def holds_I_def holds_F_def swapped_def
        process_all_def
        split: list.splits prod.splits if_splits)

lemma Inv_step: "Inv sm iv w0 obs st \<Longrightarrow> Inv sm iv w0 obs (step sm iv t st)"
  by (cases t) (simp_all add: step_def Inv_ingest Inv_flusher)

lemma Inv_run: "Inv sm iv w0 obs st \<Longrightarrow> Inv sm iv w0 obs (run sm iv sched st)"
  unfolding run_def by (induction sched arbitrary: st) (simp_all add: Inv_step)

text \<open>
  Claim C8. In every interleaving of the worker's loop, which calls \<^verbatim>\<open>ProcessMetric\<close>
  on the observations of the channel, with one call of \<^verbatim>\<open>Flush\<close>, no observation is lost
  or counted twice across the swap. The observations ingested so far are the first ones
  of the channel, in order, each once; the swap cuts them in two. When \<^verbatim>\<open>Flush\<close> has
  returned, what it returned is what \<^verbatim>\<open>Flush\<close> returns on the worker that has processed
  exactly the observations ingested before the swap; and the shared worker is the one
  that \<^verbatim>\<open>Flush\<close> leaves behind, after processing exactly the observations ingested after
  the swap, so these are what the next \<^verbatim>\<open>Flush\<close> will report.
\<close>

theorem swap_boundary:
  "let st = run sm interval schedule (start w0 observations);
       before_swap = take (swap_at st) (ingested st);
       after_swap = drop (swap_at st) (ingested st)
   in (\<exists>pending. observations = ingested st @ pending) \<and>
      (\<forall>out. flusher st = F_Returned out \<longrightarrow>
         out = fst (snd (Worker_Flush sm (process_all sm w0 before_swap) interval)) \<and>
         shared st =
           process_all sm (fst (Worker_Flush sm (process_all sm w0 before_swap) interval))
             after_swap)"
proof -
  define st where "st = run sm interval schedule (start w0 observations)"
  have inv: "Inv sm interval w0 observations st"
    unfolding st_def by (rule Inv_run [OF Inv_start])
  have pre: "\<exists>pending. observations = ingested st @ pending"
    using inv by (auto simp: Inv_def)
  have ret: "out = fst (snd (Worker_Flush sm (process_all sm w0 (take (swap_at st) (ingested st))) interval)) \<and>
         shared st =
           process_all sm (fst (Worker_Flush sm (process_all sm w0 (take (swap_at st) (ingested st))) interval))
             (drop (swap_at st) (ingested st))"
    if "flusher st = F_Returned out" for out
  proof -
    from inv that obtain l where "swapped sm w0 st l" "out = flush_taken sm l interval"
      by (auto simp: Inv_def)
    then show ?thesis
      by (simp add: swapped_def Worker_Flush_split)
  qed
  show ?thesis
    using pre ret by (simp add: Let_def st_def [symmetric])
qed

lemma run_overlap:
  "run tally 10 overlap (start (shard 0) [hit, hit, hit]) =
     \<lparr>shared = (shard 0)\<lparr>metrics := 1, counters := [(7, (''requests'', 1))]\<rparr>,
      mutex = None, WorkChan = [hit], ingest = Receiving,
      flusher = F_Returned [\<lparr>Fields = (''requests'', 1), Hostname = []\<rparr>],
      crashed = None, ingested = [hit, hit], swap_at = 1\<rparr>"
  by (simp add: run_def overlap_def start_def step_def ingest_step_def flusher_step_def
      ProcessMetric_def process_counter_def hit_def tally_def shard_def NewWorker_def
      present_def store_def sample_at_def new_sampler_log_def
      take_maps_def install_fresh_def flush_taken_def Let_def)

theorem swap_boundary_witness:
  "flusher (run tally 10 overlap (start (shard 0) [hit, hit, hit])) =
     F_Returned [\<lparr>Fields = (''requests'', 1), Hostname = []\<rparr>] \<and>
   [\<lparr>Fields = (''requests'', 1), Hostname = []\<rparr>] =
     fst (snd (Worker_Flush tally (process_all tally (shard 0) [hit]) 10)) \<and>
   shared (run tally 10 overlap (start (shard 0) [hit, hit, hit])) =
     process_all tally (fst (Worker_Flush tally (process_all tally (shard 0) [hit]) 10)) [hit]"
proof -
  have r: "flusher (run tally 10 overlap (start (shard 0) [hit, hit, hit])) =
     F_Returned [\<lparr>Fields = (''requests'', 1), Hostname = []\<rparr>]"
    and c: "swap_at (run tally 10 overlap (start (shard 0) [hit, hit, hit])) = 1"
    and i: "ingested (run tally 10 overlap (start (shard 0) [hit, hit, hit])) = [hit, hit]"
    by (simp_all add: run_overlap)
  show ?thesis
    using swap_boundary [of tally 10 overlap "shard 0" "[hit, hit, hit]"] r c i
    by (simp add: Let_def)
qed

end
